theory Spec2Isabelle
  imports Main "HOL-Library.Sublist" "HOL-Library.AList"
begin

section \<open>The interactive file navigator of \<^verbatim>\<open>src/main.js\<close>\<close>

text \<open>
  The program is a read-eval-print loop over Node.js primitives.  The handlers and the
  dispatch loop are translated from \<^verbatim>\<open>src/main.js\<close>; what they call in Node.js
  (\<^verbatim>\<open>path\<close>, \<^verbatim>\<open>fs\<close>, \<^verbatim>\<open>process\<close>, \<^verbatim>\<open>os\<close>, plain objects, \<^verbatim>\<open>Array.prototype.sort\<close>)
  is modelled here on a POSIX host, within these limits:
  \<^item> a string is a list of 8-bit characters; white space is the ASCII white space;
  \<^item> the file system holds regular files, directories and socket files; a regular file
    can have several names (hard links); there are no symbolic links, no names that differ
    in case only, no permissions, and nothing but the session changes the file system;
  \<^item> a stream transfers a whole file in one piece, and an input line is handled to its
    end before the next one is read;
  \<^item> what the host decides (host properties, digest, Brotli codec, collation, the wording
    of an engine's type errors, the merge phase of the engine's sort) is a field of the
    record \<open>platform\<close>.
\<close>

subsection \<open>Strings\<close>

definition is_whitespace :: "char \<Rightarrow> bool" where
  "is_whitespace c =
     (c = CHR 0x09 \<or> c = CHR 0x0A \<or> c = CHR 0x0B \<or> c = CHR 0x0C \<or> c = CHR 0x0D \<or> c = CHR '' '')"

text \<open>\<^verbatim>\<open>String.prototype.trim\<close>.\<close>

definition trim :: "string \<Rightarrow> string" where
  "trim s = rev (dropWhile is_whitespace (rev (dropWhile is_whitespace s)))"

text \<open>
  \<^verbatim>\<open>s.split(/\s+/g)\<close>: the pieces between the maximal runs of white space; \<open>inrun\<close>
  says that the character before was white space, \<open>cur\<close> is the piece being read.
\<close>

fun split_ws :: "bool \<Rightarrow> string \<Rightarrow> string \<Rightarrow> string list" where
  "split_ws inrun cur [] = [cur]"
| "split_ws inrun cur (c # cs) =
     (if is_whitespace c
      then (if inrun then split_ws True cur cs else cur # split_ws True [] cs)
      else split_ws False (cur @ [c]) cs)"

definition split_whitespace :: "string \<Rightarrow> string list" where
  "split_whitespace s = split_ws False [] s"

text \<open>The pieces of a string between the occurrences of a separator character.\<close>

fun split_on :: "char \<Rightarrow> string \<Rightarrow> string \<Rightarrow> string list" where
  "split_on sep cur [] = [cur]"
| "split_on sep cur (c # cs) =
     (if c = sep then cur # split_on sep [] cs else split_on sep (cur @ [c]) cs)"

fun intercalate :: "string \<Rightarrow> string list \<Rightarrow> string" where
  "intercalate sep [] = []"
| "intercalate sep [x] = x"
| "intercalate sep (x # y # ys) = x @ sep @ intercalate sep (y # ys)"

text \<open>Decimal digits of a number, as template literals print it.\<close>

fun digits :: "nat \<Rightarrow> nat \<Rightarrow> string" where
  "digits 0 n = []"
| "digits (Suc fuel) n =
     (if n < 10 then [char_of (48 + n)] else digits fuel (n div 10) @ [char_of (48 + n mod 10)])"

definition show_nat :: "nat \<Rightarrow> string" where
  "show_nat n = digits (Suc n) n"

text \<open>
  \<^verbatim>\<open>JSON.stringify\<close> of a string: quotes, with the quote, the backslash and the control
  characters that have a short escape written as escapes.
\<close>

definition json_escape :: "char \<Rightarrow> string" where
  "json_escape c =
     (if c = CHR 0x22 then [CHR 0x5C, CHR 0x22]
      else if c = CHR 0x5C then [CHR 0x5C, CHR 0x5C]
      else if c = CHR 0x0A then [CHR 0x5C, CHR ''n'']
      else if c = CHR 0x0D then [CHR 0x5C, CHR ''r'']
      else if c = CHR 0x09 then [CHR 0x5C, CHR ''t'']
      else if c = CHR 0x08 then [CHR 0x5C, CHR ''b'']
      else if c = CHR 0x0C then [CHR 0x5C, CHR ''f'']
      else [c])"

definition json_stringify :: "string \<Rightarrow> string" where
  "json_stringify s = [CHR 0x22] @ concat (map json_escape s) @ [CHR 0x22]"

text \<open>\<^verbatim>\<open>strcmp\<close>: comparison of two strings by their character codes.\<close>

fun strcmp :: "string \<Rightarrow> string \<Rightarrow> int" where
  "strcmp [] [] = 0"
| "strcmp [] (b # bs) = - 1"
| "strcmp (a # as) [] = 1"
| "strcmp (a # as) (b # bs) =
     (if a = b then strcmp as bs
      else if (of_char a :: nat) < of_char b then - 1 else 1)"

subsection \<open>Paths (\<^verbatim>\<open>path\<close>, POSIX flavour)\<close>

text \<open>
  An absolute, normalised path is the list of its components, the root being \<open>[]\<close>;
  \<open>render\<close> is the string Node.js shows for it.  Two normalised paths are equal as
  strings exactly when their components are equal (\<open>render_inject\<close> below), so the
  comparison \<^verbatim>\<open>===\<close> of two resolved paths is the equality of component lists.
\<close>

type_synonym path = "string list"

definition render :: "path \<Rightarrow> string" where
  "render p = ''/'' @ intercalate ''/'' p"

text \<open>
  The components of a normalised path are \<open>plain\<close>: not empty, neither \<^verbatim>\<open>.\<close> nor
  \<^verbatim>\<open>..\<close>, and without a slash.
\<close>

definition plain :: "string \<Rightarrow> bool" where
  "plain c = (c \<noteq> [] \<and> c \<noteq> ''.'' \<and> c \<noteq> ''..'' \<and> CHR ''/'' \<notin> set c)"

text \<open>
  One segment of \<^verbatim>\<open>normalizeString\<close>: empty segments and \<^verbatim>\<open>.\<close> are dropped, \<^verbatim>\<open>..\<close>
  removes the component before it; where there is none, it is kept in a relative path
  (\<open>keep\<close>) and dropped in an absolute one.
\<close>

definition norm_segment :: "bool \<Rightarrow> string list \<Rightarrow> string \<Rightarrow> string list" where
  "norm_segment keep acc seg =
     (if seg = [] \<or> seg = ''.'' then acc
      else if seg = ''..''
      then (if acc \<noteq> [] \<and> last acc \<noteq> ''..'' then butlast acc
            else if keep then acc @ [seg] else acc)
      else acc @ [seg])"

definition is_absolute :: "string \<Rightarrow> bool" where
  "is_absolute s = (s \<noteq> [] \<and> hd s = CHR ''/'')"

text \<open>
  \<^verbatim>\<open>path.resolve(...args)\<close>, with \<open>wd\<close> the value of \<^verbatim>\<open>process.cwd()\<close>.  Node.js reads
  the arguments from the right until one is absolute and normalises the joined string;
  reading from the left and starting afresh at each absolute argument gives the same
  components.  Empty arguments are skipped.
\<close>

definition resolve_step :: "path \<Rightarrow> string \<Rightarrow> path" where
  "resolve_step acc arg =
     (if arg = [] then acc
      else foldl (norm_segment False) (if is_absolute arg then [] else acc)
             (split_on CHR ''/'' [] arg))"

definition path_resolve :: "path \<Rightarrow> string list \<Rightarrow> path" where
  "path_resolve wd args = foldl resolve_step wd args"

text \<open>\<^verbatim>\<open>path.basename\<close> and \<^verbatim>\<open>path.dirname\<close> of a resolved path.\<close>

definition path_basename :: "path \<Rightarrow> string" where
  "path_basename p = (if p = [] then [] else last p)"

definition path_dirname :: "path \<Rightarrow> path" where
  "path_dirname p = butlast p"

text \<open>\<^verbatim>\<open>path.join(dir, fragment)\<close> for a resolved \<open>dir\<close> (a trailing slash is not kept).\<close>

definition path_join_abs :: "path \<Rightarrow> string \<Rightarrow> path" where
  "path_join_abs dir fragment = foldl (norm_segment False) dir (split_on CHR ''/'' [] fragment)"

text \<open>\<^verbatim>\<open>path.join(a, b)\<close> of two raw strings, as the messages of \<^verbatim>\<open>cp\<close> and \<^verbatim>\<open>mv\<close> print it.\<close>

definition path_join :: "string \<Rightarrow> string \<Rightarrow> string" where
  "path_join a b =
     (let joined = (if a = [] then b else if b = [] then a else a @ ''/'' @ b);
          absolute = is_absolute joined;
          trailing = (joined \<noteq> [] \<and> last joined = CHR ''/'');
          segs = foldl (norm_segment (\<not> absolute)) [] (split_on CHR ''/'' [] joined);
          body = intercalate ''/'' segs
      in if joined = [] then ''.''
         else if body = [] then (if absolute then ''/'' else if trailing then ''./'' else ''.'')
         else (if absolute then ''/'' else []) @ body @ (if trailing then ''/'' else []))"

subsection \<open>The file system (\<^verbatim>\<open>fs\<close>, \<^verbatim>\<open>fs/promises\<close>)\<close>

text \<open>
  A directory entry gives a name to a regular file, known by its inode number, to a
  directory or to a socket file (neither file nor directory; it cannot be opened).  The
  file system holds the entries with their absolute paths and the bytes of every inode;
  two paths with the same inode number are two names of one file.
\<close>

datatype entry = Regular nat | Directory | SocketFile

record filesystem =
  dir_entries :: "(path \<times> entry) list"
  file_bytes :: "(nat \<times> string) list"

text \<open>What a metadata query or a directory listing tells about an entry.\<close>

datatype node = File string | Dir | Socket

datatype errno = ENOENT | ENOTDIR | EISDIR | EEXIST | ENXIO | ENOTEMPTY | EINVAL | EBUSY

text \<open>
  Path lookup goes down from the root: a missing component is \<open>ENOENT\<close>, a component
  under something that is not a directory is \<open>ENOTDIR\<close>.
\<close>

fun walk :: "(path \<Rightarrow> entry option) \<Rightarrow> path \<Rightarrow> string list \<Rightarrow> errno + entry" where
  "walk m pre [] = (case m pre of None \<Rightarrow> Inl ENOENT | Some x \<Rightarrow> Inr x)"
| "walk m pre (c # cs) =
     (case m pre of
        None \<Rightarrow> Inl ENOENT
      | Some Directory \<Rightarrow> walk m (pre @ [c]) cs
      | Some _ \<Rightarrow> Inl ENOTDIR)"

definition fs_lookup :: "filesystem \<Rightarrow> path \<Rightarrow> errno + entry" where
  "fs_lookup files p = walk (map_of (dir_entries files)) [] p"

definition bytes_of :: "filesystem \<Rightarrow> nat \<Rightarrow> string" where
  "bytes_of files i = (case map_of (file_bytes files) i of None \<Rightarrow> [] | Some c \<Rightarrow> c)"

definition node_of :: "filesystem \<Rightarrow> entry \<Rightarrow> node" where
  "node_of files x =
     (case x of Regular i \<Rightarrow> File (bytes_of files i) | Directory \<Rightarrow> Dir | SocketFile \<Rightarrow> Socket)"

text \<open>\<^verbatim>\<open>stat\<close>: the metadata query (for a regular file, its bytes stand for its metadata).\<close>

definition fs_stat :: "filesystem \<Rightarrow> path \<Rightarrow> errno + node" where
  "fs_stat files p =
     (case fs_lookup files p of Inl e \<Rightarrow> Inl e | Inr x \<Rightarrow> Inr (node_of files x))"

text \<open>The directory that would hold \<open>p\<close> must exist and be a directory.\<close>

definition parent_check :: "filesystem \<Rightarrow> path \<Rightarrow> errno option" where
  "parent_check files p =
     (case fs_stat files (butlast p) of
        Inl e \<Rightarrow> Some e
      | Inr Dir \<Rightarrow> None
      | Inr _ \<Rightarrow> Some ENOTDIR)"

text \<open>Opening a read stream and reading it to the end.\<close>

definition fs_read :: "filesystem \<Rightarrow> path \<Rightarrow> errno + string" where
  "fs_read files p =
     (case fs_stat files p of
        Inl e \<Rightarrow> Inl e
      | Inr (File c) \<Rightarrow> Inr c
      | Inr Dir \<Rightarrow> Inl EISDIR
      | Inr Socket \<Rightarrow> Inl ENXIO)"

text \<open>The bytes that a read stream, opened on \<open>p\<close> before, delivers when it is read now.\<close>

definition stream_data :: "filesystem \<Rightarrow> path \<Rightarrow> string" where
  "stream_data files p = (case fs_read files p of Inl e \<Rightarrow> [] | Inr c \<Rightarrow> c)"

text \<open>A new regular file gets an inode number that is not in use.\<close>

definition inode_numbers :: "filesystem \<Rightarrow> nat list" where
  "inode_numbers files =
     map fst (file_bytes files)
       @ concat (map (\<lambda>(q, x). case x of Regular i \<Rightarrow> [i] | _ \<Rightarrow> []) (dir_entries files))"

definition fresh_inode :: "filesystem \<Rightarrow> nat" where
  "fresh_inode files = Suc (fold max (inode_numbers files) 0)"

definition create_file :: "filesystem \<Rightarrow> path \<Rightarrow> filesystem" where
  "create_file files p =
     files\<lparr>dir_entries := AList.update p (Regular (fresh_inode files)) (dir_entries files),
           file_bytes := AList.update (fresh_inode files) [] (file_bytes files)\<rparr>"

definition set_bytes :: "filesystem \<Rightarrow> nat \<Rightarrow> string \<Rightarrow> filesystem" where
  "set_bytes files i bytes = files\<lparr>file_bytes := AList.update i bytes (file_bytes files)\<rparr>"

text \<open>
  Opening a write stream (flag \<^verbatim>\<open>w\<close>): the file is created, or truncated if it is there;
  truncation empties the inode, under all its names.
\<close>

definition fs_open_write :: "filesystem \<Rightarrow> path \<Rightarrow> errno + filesystem" where
  "fs_open_write files p =
     (case fs_lookup files p of
        Inr (Regular i) \<Rightarrow> Inr (set_bytes files i [])
      | Inr Directory \<Rightarrow> Inl EISDIR
      | Inr SocketFile \<Rightarrow> Inl ENXIO
      | Inl e \<Rightarrow>
          (case parent_check files p of
             Some e' \<Rightarrow> Inl e'
           | None \<Rightarrow> Inr (create_file files p)))"

text \<open>Writing the bytes through a write stream that was opened on \<open>p\<close>.\<close>

definition fs_write :: "filesystem \<Rightarrow> path \<Rightarrow> string \<Rightarrow> filesystem" where
  "fs_write files p bytes =
     (case fs_lookup files p of Inr (Regular i) \<Rightarrow> set_bytes files i bytes | _ \<Rightarrow> files)"

text \<open>
  \<^verbatim>\<open>writeFile(p, '', { flag: 'wx' })\<close>: exclusive creation of an empty file; it fails with
  \<open>EEXIST\<close> when anything is at \<open>p\<close>.
\<close>

definition fs_create_exclusive :: "filesystem \<Rightarrow> path \<Rightarrow> errno + filesystem" where
  "fs_create_exclusive files p =
     (case fs_stat files p of
        Inr n \<Rightarrow> Inl EEXIST
      | Inl e \<Rightarrow>
          (case parent_check files p of
             Some e' \<Rightarrow> Inl e'
           | None \<Rightarrow> Inr (create_file files p)))"

text \<open>
  \<^verbatim>\<open>unlink\<close>: removes the name of a file or a socket, not a directory; the other names
  of the file stay.
\<close>

definition fs_unlink :: "filesystem \<Rightarrow> path \<Rightarrow> errno + filesystem" where
  "fs_unlink files p =
     (case fs_lookup files p of
        Inl e \<Rightarrow> Inl e
      | Inr Directory \<Rightarrow> Inl EISDIR
      | Inr _ \<Rightarrow> Inr (files\<lparr>dir_entries := AList.delete p (dir_entries files)\<rparr>))"

text \<open>
  \<^verbatim>\<open>readdir(p, { withFileTypes: true })\<close>: the entries of a directory.  Node.js reads a
  directory with \<^verbatim>\<open>scandir\<close>, which sorts the names with \<^verbatim>\<open>strcmp\<close>.
\<close>

fun insert_name :: "string \<times> 'a \<Rightarrow> (string \<times> 'a) list \<Rightarrow> (string \<times> 'a) list" where
  "insert_name x [] = [x]"
| "insert_name x (y # ys) =
     (if strcmp (fst x) (fst y) \<le> 0 then x # y # ys else y # insert_name x ys)"

definition scandir_sort :: "(string \<times> 'a) list \<Rightarrow> (string \<times> 'a) list" where
  "scandir_sort xs = foldr insert_name xs []"

definition fs_readdir :: "filesystem \<Rightarrow> path \<Rightarrow> errno + (string \<times> node) list" where
  "fs_readdir files p =
     (case fs_lookup files p of
        Inl e \<Rightarrow> Inl e
      | Inr Directory \<Rightarrow>
          Inr (scandir_sort
                 (map (\<lambda>(q, x). (last q, node_of files x))
                    (filter (\<lambda>(q, x). q \<noteq> [] \<and> butlast q = p) (dir_entries files))))
      | Inr _ \<Rightarrow> Inl ENOTDIR)"

text \<open>
  \<^verbatim>\<open>rename\<close>: the entry and, for a directory, everything below it gets the new path.  It
  replaces a file by a file and an empty directory by a directory, and does nothing when
  both paths are names of one file.
\<close>

definition rekey :: "path \<Rightarrow> path \<Rightarrow> path \<Rightarrow> path" where
  "rekey old new q = (if prefix old q then new @ drop (length old) q else q)"

definition fs_move :: "filesystem \<Rightarrow> path \<Rightarrow> path \<Rightarrow> filesystem" where
  "fs_move files old new =
     files\<lparr>dir_entries :=
       map (\<lambda>(q, x). (rekey old new q, x))
         (filter (\<lambda>(q, x). \<not> prefix new q) (dir_entries files))\<rparr>"

definition fs_rename :: "filesystem \<Rightarrow> path \<Rightarrow> path \<Rightarrow> errno + filesystem" where
  "fs_rename files old new =
     (case fs_lookup files old of
        Inl e \<Rightarrow> Inl e
      | Inr x \<Rightarrow>
          if old = [] \<or> new = [] then Inl EBUSY
          else (case parent_check files new of
             Some e \<Rightarrow> Inl e
           | None \<Rightarrow>
               if old = new then Inr files
               else if x = Directory \<and> prefix old new then Inl EINVAL
               else (case map_of (dir_entries files) new of
                  None \<Rightarrow> Inr (fs_move files old new)
                | Some Directory \<Rightarrow>
                    if x \<noteq> Directory then Inl EISDIR
                    else if filter (\<lambda>(q, y). q \<noteq> [] \<and> butlast q = new) (dir_entries files) \<noteq> []
                    then Inl ENOTEMPTY
                    else Inr (fs_move files old new)
                | Some y \<Rightarrow>
                    if x = Directory then Inl ENOTDIR
                    else if y = x then Inr files
                    else Inr (fs_move files old new))))"

subsection \<open>Errors, output and the state of a session\<close>

text \<open>
  What a handler can throw: \<^verbatim>\<open>new Error(message)\<close> of the program itself, a system error
  of a file-system call (code, call, paths), or a \<^verbatim>\<open>TypeError\<close> of the engine.
\<close>

datatype type_error =
    NotAFunction string
  | CalledOnUndefined string
  | AccessorNotCallable string

datatype js_error =
    Error string
  | SystemError errno string "path list"
  | TypeError type_error

datatype outcome = Returned | Threw js_error | Exited

datatype cell = Str string | Num nat

datatype console_event =
    Log string
  | Warn string
  | ErrorLine string
  | Table "(string \<times> cell) list list"
  | Stdout string
  | Prompt

datatype syscall =
    Stat path
  | Chdir path
  | Readdir path
  | OpenRead path
  | OpenWrite path
  | OpenExclusive path
  | Rename path path
  | Unlink path

record session =
  cwd :: path
  fs :: filesystem
  console :: "console_event list"
  syscalls :: "syscall list"
  exit_code :: "nat option"

text \<open>A row of the table that \<^verbatim>\<open>ls\<close> prints: \<^verbatim>\<open>{ Name, Type }\<close>.\<close>

datatype entry_type = Folder | FileType | Other

type_synonym listing_row = "string \<times> entry_type"

record platform =
  homedir :: string
  EOL :: string
  cpus :: "(string \<times> nat) list"
  username :: string
  architecture :: string
  sha256_hex :: "string \<Rightarrow> string"
  brotli_encode :: "string \<Rightarrow> string"
  brotli_decode :: "string \<Rightarrow> string + string"
  localeCompare :: "string \<Rightarrow> string \<Rightarrow> int"
  type_error_message :: "type_error \<Rightarrow> string"
  sort_long :: "(listing_row \<Rightarrow> listing_row \<Rightarrow> int) \<Rightarrow> listing_row list \<Rightarrow> listing_row list"

definition errno_code :: "errno \<Rightarrow> string" where
  "errno_code e =
     (case e of ENOENT \<Rightarrow> ''ENOENT'' | ENOTDIR \<Rightarrow> ''ENOTDIR'' | EISDIR \<Rightarrow> ''EISDIR''
      | EEXIST \<Rightarrow> ''EEXIST'' | ENXIO \<Rightarrow> ''ENXIO'' | ENOTEMPTY \<Rightarrow> ''ENOTEMPTY''
      | EINVAL \<Rightarrow> ''EINVAL'' | EBUSY \<Rightarrow> ''EBUSY'')"

definition errno_text :: "errno \<Rightarrow> string" where
  "errno_text e =
     (case e of ENOENT \<Rightarrow> ''no such file or directory'' | ENOTDIR \<Rightarrow> ''not a directory''
      | EISDIR \<Rightarrow> ''illegal operation on a directory'' | EEXIST \<Rightarrow> ''file already exists''
      | ENXIO \<Rightarrow> ''no such device or address'' | ENOTEMPTY \<Rightarrow> ''directory not empty''
      | EINVAL \<Rightarrow> ''invalid argument'' | EBUSY \<Rightarrow> ''resource busy or locked'')"

definition quote_path :: "path \<Rightarrow> string" where
  "quote_path p = [CHR 0x27] @ render p @ [CHR 0x27]"

text \<open>The \<^verbatim>\<open>message\<close> property of what was thrown.\<close>

definition error_message :: "platform \<Rightarrow> js_error \<Rightarrow> string" where
  "error_message pf err =
     (case err of
        Error m \<Rightarrow> m
      | SystemError e call ps \<Rightarrow>
          errno_code e @ '': '' @ errno_text e @ '', '' @ call
            @ (if ps = [] then [] else '' '' @ intercalate '' -> '' (map quote_path ps))
      | TypeError t \<Rightarrow> type_error_message pf t)"

subsection \<open>Plain objects and \<^verbatim>\<open>Array.prototype.sort\<close>\<close>

text \<open>
  \<^verbatim>\<open>commandRegistry\<close> and \<^verbatim>\<open>propertyAccessors\<close> are object literals, so a property read
  \<^verbatim>\<open>obj[name]\<close> finds the object's own properties and then those of \<^verbatim>\<open>Object.prototype\<close>.
\<close>

datatype object_prototype_member =
    Constructor | DefineGetter | DefineSetter | HasOwnProperty | LookupGetter | LookupSetter
  | IsPrototypeOf | PropertyIsEnumerable | ToString | ValueOf | Proto | ToLocaleString

definition object_prototype :: "(string \<times> object_prototype_member) list" where
  "object_prototype =
     [(''constructor'', Constructor), (''__defineGetter__'', DefineGetter),
      (''__defineSetter__'', DefineSetter), (''hasOwnProperty'', HasOwnProperty),
      (''__lookupGetter__'', LookupGetter), (''__lookupSetter__'', LookupSetter),
      (''isPrototypeOf'', IsPrototypeOf), (''propertyIsEnumerable'', PropertyIsEnumerable),
      (''toString'', ToString), (''valueOf'', ValueOf), (''__proto__'', Proto),
      (''toLocaleString'', ToLocaleString)]"

datatype 'a property = Own 'a | Inherited object_prototype_member | Missing

definition get_property :: "(string \<times> 'a) list \<Rightarrow> string \<Rightarrow> 'a property" where
  "get_property obj name =
     (case map_of obj name of
        Some v \<Rightarrow> Own v
      | None \<Rightarrow> (case map_of object_prototype name of Some m \<Rightarrow> Inherited m | None \<Rightarrow> Missing))"

text \<open>
  Calling an inherited member as a plain function \<^verbatim>\<open>f(...args)\<close>, the arguments being
  strings: \<^verbatim>\<open>this\<close> is \<^verbatim>\<open>undefined\<close>, which \<^verbatim>\<open>Object\<close>, \<^verbatim>\<open>toString\<close> and
  \<^verbatim>\<open>isPrototypeOf\<close> accept; \<^verbatim>\<open>__proto__\<close> is the prototype object, not a function.
\<close>

definition call_as_function :: "string \<Rightarrow> object_prototype_member \<Rightarrow> outcome" where
  "call_as_function callee m =
     (case m of
        Constructor \<Rightarrow> Returned
      | ToString \<Rightarrow> Returned
      | IsPrototypeOf \<Rightarrow> Returned
      | Proto \<Rightarrow> Threw (TypeError (NotAFunction callee))
      | DefineGetter \<Rightarrow> Threw (TypeError (CalledOnUndefined ''__defineGetter__''))
      | DefineSetter \<Rightarrow> Threw (TypeError (CalledOnUndefined ''__defineSetter__''))
      | HasOwnProperty \<Rightarrow> Threw (TypeError (CalledOnUndefined ''hasOwnProperty''))
      | LookupGetter \<Rightarrow> Threw (TypeError (CalledOnUndefined ''__lookupGetter__''))
      | LookupSetter \<Rightarrow> Threw (TypeError (CalledOnUndefined ''__lookupSetter__''))
      | PropertyIsEnumerable \<Rightarrow> Threw (TypeError (CalledOnUndefined ''propertyIsEnumerable''))
      | ValueOf \<Rightarrow> Threw (TypeError (CalledOnUndefined ''valueOf''))
      | ToLocaleString \<Rightarrow> Threw (TypeError (CalledOnUndefined ''toLocaleString'')))"

text \<open>
  Calling an inherited member as a method without arguments, \<^verbatim>\<open>obj[name]()\<close>: \<^verbatim>\<open>this\<close> is
  the object; only the two definers, which want a function as second argument, and
  \<^verbatim>\<open>__proto__\<close> throw.
\<close>

definition call_as_method :: "string \<Rightarrow> object_prototype_member \<Rightarrow> outcome" where
  "call_as_method callee m =
     (case m of
        Proto \<Rightarrow> Threw (TypeError (NotAFunction callee))
      | DefineGetter \<Rightarrow> Threw (TypeError (AccessorNotCallable ''__defineGetter__''))
      | DefineSetter \<Rightarrow> Threw (TypeError (AccessorNotCallable ''__defineSetter__''))
      | _ \<Rightarrow> Returned)"

text \<open>
  \<^verbatim>\<open>Array.prototype.sort\<close> of V8 with a comparison function.  An array of fewer than 64
  elements is one run: the longest ascending or strictly descending stretch at the front
  (the latter reversed), extended by binary insertion.  Longer arrays are cut into such
  runs, which are merged; that part is the platform's \<open>sort_long\<close>.
\<close>

fun run_length :: "('a \<Rightarrow> 'a \<Rightarrow> int) \<Rightarrow> bool \<Rightarrow> 'a \<Rightarrow> 'a list \<Rightarrow> nat" where
  "run_length cmp descending previous [] = 0"
| "run_length cmp descending previous (x # xs) =
     (let order = cmp x previous
      in if (if descending then order \<ge> 0 else order < 0) then 0
         else Suc (run_length cmp descending x xs))"

definition count_and_make_run :: "('a \<Rightarrow> 'a \<Rightarrow> int) \<Rightarrow> 'a list \<Rightarrow> nat \<times> 'a list" where
  "count_and_make_run cmp xs =
     (case xs of
        a # b # rest \<Rightarrow>
          (let descending = (cmp b a < 0);
               n = 2 + run_length cmp descending b rest
           in (n, if descending then rev (take n xs) @ drop n xs else xs))
      | _ \<Rightarrow> (length xs, xs))"

function binary_search :: "('a \<Rightarrow> 'a \<Rightarrow> int) \<Rightarrow> 'a \<Rightarrow> 'a list \<Rightarrow> nat \<Rightarrow> nat \<Rightarrow> nat" where
  "binary_search cmp pivot xs left right =
     (if left < right
      then (let mid = left + (right - left) div 2
            in if cmp pivot (xs ! mid) < 0 then binary_search cmp pivot xs left mid
               else binary_search cmp pivot xs (mid + 1) right)
      else left)"
  by pat_completeness auto
termination
  by (relation "measure (\<lambda>(cmp, pivot, xs, left, right). right - left)") auto

text \<open>\<open>binary_insertion_sort cmp k start xs\<close> inserts the \<open>k\<close> elements from index \<open>start\<close> on.\<close>

fun binary_insertion_sort :: "('a \<Rightarrow> 'a \<Rightarrow> int) \<Rightarrow> nat \<Rightarrow> nat \<Rightarrow> 'a list \<Rightarrow> 'a list" where
  "binary_insertion_sort cmp 0 start xs = xs"
| "binary_insertion_sort cmp (Suc k) start xs =
     (let pivot = xs ! start;
          left = binary_search cmp pivot xs 0 start
      in binary_insertion_sort cmp k (Suc start)
           (take left xs @ pivot # drop left (take start xs) @ drop (Suc start) xs))"

definition sort_short :: "('a \<Rightarrow> 'a \<Rightarrow> int) \<Rightarrow> 'a list \<Rightarrow> 'a list" where
  "sort_short cmp xs =
     (let (n, ys) = count_and_make_run cmp xs
      in binary_insertion_sort cmp (length xs - n) n ys)"

definition array_sort ::
  "platform \<Rightarrow> (listing_row \<Rightarrow> listing_row \<Rightarrow> int) \<Rightarrow> listing_row list \<Rightarrow> listing_row list" where
  "array_sort pf cmp xs =
     (if length xs < 2 then xs
      else if length xs < 64 then sort_short cmp xs
      else sort_long pf cmp xs)"

subsection \<open>The command handlers\<close>

definition emit :: "console_event \<Rightarrow> session \<Rightarrow> session" where
  "emit ev s = s\<lparr>console := console s @ [ev]\<rparr>"

definition trace :: "syscall \<Rightarrow> session \<Rightarrow> session" where
  "trace c s = s\<lparr>syscalls := syscalls s @ [c]\<rparr>"

text \<open>
  A parameter is \<open>None\<close> when the call passes no argument for it (\<^verbatim>\<open>undefined\<close>);
  \<^verbatim>\<open>!x\<close> holds for \<^verbatim>\<open>undefined\<close> and for the empty string.
\<close>

definition falsy :: "string option \<Rightarrow> bool" where
  "falsy a = (case a of None \<Rightarrow> True | Some x \<Rightarrow> x = [])"

definition text_of :: "string option \<Rightarrow> string" where
  "text_of a = (case a of None \<Rightarrow> ''undefined'' | Some x \<Rightarrow> x)"

definition quoted :: "string \<Rightarrow> string" where
  "quoted x = [CHR 0x22] @ x @ [CHR 0x22]"

definition displayCurrentPath :: "session \<Rightarrow> session" where
  "displayCurrentPath s =
     emit Prompt (emit (Log ([CHR 0x0A] @ ''[Current Location]: '' @ render (cwd s))) s)"

text \<open>
  \<^verbatim>\<open>navigateUpward\<close>.  \<^verbatim>\<open>chdir('..')\<close> follows the parent link of the working directory;
  the parent of the root is the root.
\<close>

definition navigateUpward :: "platform \<Rightarrow> session \<Rightarrow> outcome \<times> session" where
  "navigateUpward pf s =
     (let usersRoot = path_resolve (cwd s) [homedir pf];
          currentLoc = path_resolve (cwd s) [render (cwd s)]
      in if currentLoc \<noteq> usersRoot
         then (Returned, (trace (Chdir (butlast (cwd s))) s)\<lparr>cwd := butlast (cwd s)\<rparr>)
         else (Returned, emit (Log ''Already at the root user directory. Cannot go further up.'') s))"

text \<open>\<^verbatim>\<open>process.chdir(p)\<close> for a resolved path: it throws unless \<open>p\<close> is a directory.\<close>

definition changeCurrentDirectory :: "path \<Rightarrow> session \<Rightarrow> outcome \<times> session" where
  "changeCurrentDirectory p s =
     (let s1 = trace (Chdir p) s
      in case fs_stat (fs s) p of
           Inl e \<Rightarrow> (Threw (SystemError e ''chdir'' [cwd s, p]), s1)
         | Inr Dir \<Rightarrow> (Returned, s1\<lparr>cwd := p\<rparr>)
         | Inr _ \<Rightarrow> (Threw (SystemError ENOTDIR ''chdir'' [cwd s, p]), s1))"

definition navigateToSpecificDirectory :: "string option \<Rightarrow> session \<Rightarrow> outcome \<times> session" where
  "navigateToSpecificDirectory destination s =
     (if falsy destination then (Threw (Error ''Directory path not specified.''), s)
      else let prospectivePath = path_resolve (cwd s) [text_of destination];
               s1 = trace (Stat prospectivePath) s
           in case fs_stat (fs s) prospectivePath of
                Inl e \<Rightarrow> (Threw (SystemError e ''stat'' [prospectivePath]), s1)
              | Inr metadata \<Rightarrow> changeCurrentDirectory prospectivePath s1)"

definition classify :: "string \<times> node \<Rightarrow> listing_row" where
  "classify entry =
     (fst entry, case snd entry of Dir \<Rightarrow> Folder | File c \<Rightarrow> FileType | Socket \<Rightarrow> Other)"

text \<open>The comparison function that \<^verbatim>\<open>enumerateDirectoryContents\<close> gives to \<^verbatim>\<open>sort\<close>.\<close>

definition compare_rows :: "platform \<Rightarrow> listing_row \<Rightarrow> listing_row \<Rightarrow> int" where
  "compare_rows pf itemA itemB =
     (if snd itemA = snd itemB then localeCompare pf (fst itemA) (fst itemB)
      else if snd itemA = Folder then - 1 else 1)"

definition type_name :: "entry_type \<Rightarrow> string" where
  "type_name t = (case t of Folder \<Rightarrow> ''Folder'' | FileType \<Rightarrow> ''File'' | Other \<Rightarrow> ''Other'')"

definition row_cells :: "listing_row \<Rightarrow> (string \<times> cell) list" where
  "row_cells r = [(''Name'', Str (fst r)), (''Type'', Str (type_name (snd r)))]"

text \<open>The sorted rows of a directory's entries.\<close>

definition formatted_entries :: "platform \<Rightarrow> (string \<times> node) list \<Rightarrow> listing_row list" where
  "formatted_entries pf entries = array_sort pf (compare_rows pf) (map classify entries)"

definition enumerateDirectoryContents :: "platform \<Rightarrow> session \<Rightarrow> outcome \<times> session" where
  "enumerateDirectoryContents pf s =
     (let s1 = trace (Readdir (cwd s)) s
      in case fs_readdir (fs s) (cwd s) of
           Inl e \<Rightarrow> (Threw (SystemError e ''scandir'' [cwd s]), s1)
         | Inr entries \<Rightarrow>
             (let formattedEntries = formatted_entries pf entries
              in if length formattedEntries = 0
                 then (Returned, emit (Log ''This directory is empty.'') s1)
                 else (Returned, emit (Table (map row_cells formattedEntries)) s1)))"

text \<open>The error of a read stream: a directory opens and fails at the first read.\<close>

definition read_error :: "errno \<Rightarrow> path \<Rightarrow> js_error" where
  "read_error e p = (if e = EISDIR then SystemError e ''read'' [] else SystemError e ''open'' [p])"

definition streamResourceContentToConsole ::
  "platform \<Rightarrow> string option \<Rightarrow> session \<Rightarrow> outcome \<times> session" where
  "streamResourceContentToConsole pf resourcePath s =
     (if falsy resourcePath then (Threw (Error ''Resource path not specified.''), s)
      else let absolutePath = path_resolve (cwd s) [text_of resourcePath];
               s1 = trace (OpenRead absolutePath) s
           in case fs_read (fs s) absolutePath of
                Inl e \<Rightarrow>
                  (Threw (Error (''Error reading resource: ''
                     @ error_message pf (read_error e absolutePath))), s1)
              | Inr chunk \<Rightarrow>
                  (Returned, emit (Stdout [CHR 0x0A])
                     (if chunk = [] then s1 else emit (Stdout chunk) s1)))"

definition generateNewEmptyFile :: "string option \<Rightarrow> session \<Rightarrow> outcome \<times> session" where
  "generateNewEmptyFile fileName s =
     (if falsy fileName then (Threw (Error ''File name not specified.''), s)
      else let absolutePath = path_resolve (cwd s) [text_of fileName];
               s1 = trace (OpenExclusive absolutePath) s
           in case fs_create_exclusive (fs s) absolutePath of
                Inl e \<Rightarrow> (Threw (SystemError e ''open'' [absolutePath]), s1)
              | Inr fs' \<Rightarrow>
                  (Returned,
                   emit (Log (''File '' @ quoted (text_of fileName) @ '' created successfully.''))
                     (s1\<lparr>fs := fs'\<rparr>)))"

text \<open>
  \<^verbatim>\<open>modifyResourceName\<close>.  A working directory at or below the renamed path is reported
  by \<^verbatim>\<open>process.cwd()\<close> under the new name.
\<close>

definition modifyResourceName ::
  "string option \<Rightarrow> string option \<Rightarrow> session \<Rightarrow> outcome \<times> session" where
  "modifyResourceName currentPath newNameFragment s =
     (if falsy currentPath \<or> falsy newNameFragment
      then (Threw (Error ''Original path or new name not specified.''), s)
      else let absoluteOriginalPath = path_resolve (cwd s) [text_of currentPath];
               containingDirectory = path_dirname absoluteOriginalPath;
               absoluteNewPath = path_join_abs containingDirectory (text_of newNameFragment);
               s1 = trace (Rename absoluteOriginalPath absoluteNewPath) s
           in case fs_rename (fs s) absoluteOriginalPath absoluteNewPath of
                Inl e \<Rightarrow>
                  (Threw (SystemError e ''rename'' [absoluteOriginalPath, absoluteNewPath]), s1)
              | Inr fs' \<Rightarrow>
                  (Returned,
                   emit (Log (''Renamed '' @ quoted (text_of currentPath) @ '' to ''
                                @ quoted (text_of newNameFragment) @ ''.''))
                     (s1\<lparr>fs := fs',
                         cwd := rekey absoluteOriginalPath absoluteNewPath (cwd s)\<rparr>)))"

text \<open>The file system once a write stream on \<open>p\<close> has been created, opened or not.\<close>

definition after_open_write :: "filesystem \<Rightarrow> path \<Rightarrow> filesystem" where
  "after_open_write files p = (case fs_open_write files p of Inl e \<Rightarrow> files | Inr fs1 \<Rightarrow> fs1)"

text \<open>
  \<^verbatim>\<open>transferResourceViaStream\<close>.  After the three checks and the metadata query both
  streams are created, the read stream first; creating the write stream creates or
  truncates the destination, also when the read stream then fails.  When both streams
  fail, the error of the read stream is the one reported.  The bytes are read once both
  streams are open, so after the truncation.  The source is unlinked in the continuation
  that runs once the write stream has finished.
\<close>

definition transferResourceViaStream ::
  "platform \<Rightarrow> string option \<Rightarrow> string option \<Rightarrow> bool \<Rightarrow> session \<Rightarrow> outcome \<times> session" where
  "transferResourceViaStream pf source destinationContainer isMoveOperation s =
     (if falsy source \<or> falsy destinationContainer
      then (Threw (Error ''Source or destination not specified.''), s)
      else let absoluteSourcePath = path_resolve (cwd s) [text_of source];
               itemName = path_basename absoluteSourcePath;
               absoluteDestinationPath =
                 path_resolve (cwd s) [text_of destinationContainer, itemName];
               verb = (if isMoveOperation then ''move'' else ''copy'');
               shown = quoted (text_of source) @ '' to ''
                 @ quoted (path_join (text_of destinationContainer) itemName) @ ''.''
           in if absoluteSourcePath = absoluteDestinationPath
              then (Threw (Error ''Source and destination paths are identical.''), s)
              else let s1 = trace (Stat absoluteSourcePath) s
                   in (case fs_stat (fs s) absoluteSourcePath of
                         Inl e \<Rightarrow> (Threw (SystemError e ''stat'' [absoluteSourcePath]), s1)
                       | Inr sourceMetadata \<Rightarrow>
                          (if sourceMetadata = Dir
                           then (Threw (Error (''Cannot '' @ verb
                                   @ '' a directory with this command.'')), s1)
                           else let s2 = trace (OpenWrite absoluteDestinationPath)
                                           (trace (OpenRead absoluteSourcePath) s1)
                                in (case fs_read (fs s) absoluteSourcePath of
                                      Inl re \<Rightarrow>
                                        (Threw (Error (''Read stream error during '' @ verb @ '': ''
                                           @ error_message pf (read_error re absoluteSourcePath))),
                                         s2\<lparr>fs := after_open_write (fs s) absoluteDestinationPath\<rparr>)
                                    | Inr opened \<Rightarrow>
                                       (case fs_open_write (fs s) absoluteDestinationPath of
                                          Inl we \<Rightarrow>
                                            (Threw (Error (''Write stream error during '' @ verb
                                               @ '': '' @ error_message pf
                                                  (SystemError we ''open'' [absoluteDestinationPath]))),
                                             s2)
                                        | Inr fs1 \<Rightarrow>
                                           (let s3 = s2\<lparr>fs := fs_write fs1 absoluteDestinationPath
                                                                 (stream_data fs1 absoluteSourcePath)\<rparr>
                                            in if isMoveOperation
                                               then (let s4 = trace (Unlink absoluteSourcePath) s3
                                                     in (case fs_unlink (fs s3) absoluteSourcePath of
                                                           Inl e \<Rightarrow>
                                                             (Threw (SystemError e ''unlink''
                                                                [absoluteSourcePath]), s4)
                                                         | Inr fs' \<Rightarrow>
                                                             (Returned,
                                                              emit (Log (''Moved '' @ shown))
                                                                (s4\<lparr>fs := fs'\<rparr>))))
                                               else (Returned,
                                                     emit (Log (''Copied '' @ shown)) s3)))))))"

definition obliterateSystemItem :: "string option \<Rightarrow> session \<Rightarrow> outcome \<times> session" where
  "obliterateSystemItem itemPath s =
     (if falsy itemPath then (Threw (Error ''Item path not specified.''), s)
      else let absolutePath = path_resolve (cwd s) [text_of itemPath];
               s1 = trace (Unlink absolutePath) s
           in case fs_unlink (fs s) absolutePath of
                Inl e \<Rightarrow> (Threw (SystemError e ''unlink'' [absolutePath]), s1)
              | Inr fs' \<Rightarrow>
                  (Returned,
                   emit (Log (''Item '' @ quoted (text_of itemPath) @ '' removed.''))
                     (s1\<lparr>fs := fs'\<rparr>)))"

text \<open>The five own properties of \<^verbatim>\<open>propertyAccessors\<close> and what each prints.\<close>

datatype os_accessor = ShowEOL | ShowCpus | ShowHomedir | ShowUsername | ShowArchitecture

definition propertyAccessors :: "(string \<times> os_accessor) list" where
  "propertyAccessors =
     [(''--EOL'', ShowEOL), (''--cpus'', ShowCpus), (''--homedir'', ShowHomedir),
      (''--username'', ShowUsername), (''--architecture'', ShowArchitecture)]"

definition run_accessor :: "platform \<Rightarrow> os_accessor \<Rightarrow> session \<Rightarrow> session" where
  "run_accessor pf a s =
     (case a of
        ShowEOL \<Rightarrow> emit (Log (''Default End-Of-Line sequence: '' @ json_stringify (EOL pf))) s
      | ShowCpus \<Rightarrow>
          emit (Table (map (\<lambda>cpu. [(''CoreModel'', Str (fst cpu)), (''ClockSpeedMHz'', Num (snd cpu))])
                         (cpus pf)))
            (emit (Log (''CPU Core Information (Total: '' @ show_nat (length (cpus pf)) @ ''):'')) s)
      | ShowHomedir \<Rightarrow> emit (Log (''User Home Directory: '' @ homedir pf)) s
      | ShowUsername \<Rightarrow> emit (Log (''Current System User: '' @ username pf)) s
      | ShowArchitecture \<Rightarrow> emit (Log (''System Architecture: '' @ architecture pf)) s)"

definition reportOperatingSystemProperty ::
  "platform \<Rightarrow> string option \<Rightarrow> session \<Rightarrow> outcome \<times> session" where
  "reportOperatingSystemProperty pf propertyKey s =
     (if falsy propertyKey then (Threw (Error ''OS property key not specified.''), s)
      else case get_property propertyAccessors (text_of propertyKey) of
             Own accessor \<Rightarrow> (Returned, run_accessor pf accessor s)
           | Inherited m \<Rightarrow> (call_as_method ''propertyAccessors[propertyKey]'' m, s)
           | Missing \<Rightarrow>
               (Threw (Error (''Invalid OS property key: '' @ text_of propertyKey)), s))"

definition generateResourceChecksum ::
  "platform \<Rightarrow> string option \<Rightarrow> session \<Rightarrow> outcome \<times> session" where
  "generateResourceChecksum pf resourcePath s =
     (if falsy resourcePath then (Threw (Error ''Resource path not specified.''), s)
      else let absolutePath = path_resolve (cwd s) [text_of resourcePath];
               s1 = trace (OpenRead absolutePath) s
           in case fs_read (fs s) absolutePath of
                Inl e \<Rightarrow>
                  (Threw (Error (''Error during hash calculation: ''
                     @ error_message pf (read_error e absolutePath))), s1)
              | Inr bytes \<Rightarrow>
                  (Returned,
                   emit (Log (''SHA256 Checksum for '' @ quoted (text_of resourcePath) @ '': ''
                                @ sha256_hex pf bytes)) s1))"

text \<open>
  \<^verbatim>\<open>transformFileWithBrotli\<close>.  The decoder either fails with its message (\<open>Inl\<close>) or
  gives the bytes.  The source is read once both streams are open: with source and target
  the same file, the write stream has emptied the file before it is read.
\<close>

definition transformFileWithBrotli ::
  "platform \<Rightarrow> string option \<Rightarrow> string option \<Rightarrow> string \<Rightarrow> session \<Rightarrow> outcome \<times> session" where
  "transformFileWithBrotli pf sourcePath targetPath mode s =
     (if falsy sourcePath \<or> falsy targetPath
      then (Threw (Error ''Source or target path not specified for transformation.''), s)
      else let absoluteSourcePath = path_resolve (cwd s) [text_of sourcePath];
               absoluteTargetPath = path_resolve (cwd s) [text_of targetPath];
               s2 = trace (OpenWrite absoluteTargetPath) (trace (OpenRead absoluteSourcePath) s)
           in (case fs_read (fs s) absoluteSourcePath of
                 Inl re \<Rightarrow>
                   (Threw (Error (''Read stream error during Brotli '' @ mode @ '': ''
                      @ error_message pf (read_error re absoluteSourcePath))),
                    s2\<lparr>fs := after_open_write (fs s) absoluteTargetPath\<rparr>)
               | Inr opened \<Rightarrow>
                  (case fs_open_write (fs s) absoluteTargetPath of
                     Inl we \<Rightarrow>
                       (Threw (Error (''Write stream error during Brotli '' @ mode @ '': ''
                          @ error_message pf (SystemError we ''open'' [absoluteTargetPath]))), s2)
                   | Inr fs1 \<Rightarrow>
                      (let input = stream_data fs1 absoluteSourcePath
                       in (case (if mode = ''encode'' then Inr (brotli_encode pf input)
                                 else brotli_decode pf input) of
                             Inl message \<Rightarrow>
                               (Threw (Error (''Brotli stream error during '' @ mode @ '': ''
                                  @ message)), s2\<lparr>fs := fs1\<rparr>)
                           | Inr transformed \<Rightarrow>
                               (Returned,
                                emit (Log (''File '' @ quoted (text_of sourcePath) @ '' ''
                                   @ (if mode = ''encode'' then ''compressed'' else ''decompressed'')
                                   @ '' to '' @ quoted (text_of targetPath) @ ''.''))
                                  (s2\<lparr>fs := fs_write fs1 absoluteTargetPath transformed\<rparr>)))))))"

text \<open>The handler of \<^verbatim>\<open>.exit\<close>: \<^verbatim>\<open>process.exit(0)\<close> ends the process inside the handler.\<close>

definition exit_handler :: "session \<Rightarrow> outcome \<times> session" where
  "exit_handler s =
     (Exited,
      (emit (Log ([CHR 0x0A] @ ''Advanced System Navigator session terminated. Goodbye!'')) s)
        \<lparr>exit_code := Some 0\<rparr>)"

subsection \<open>The command registry and the dispatch loop\<close>

datatype command =
    Up | Cd | Ls | Cat | Add | Rn | Cp | Mv | Rm | Os | Hash | Compress | Decompress | DotExit

definition commandRegistry :: "(string \<times> command) list" where
  "commandRegistry =
     [(''up'', Up), (''cd'', Cd), (''ls'', Ls), (''cat'', Cat), (''add'', Add), (''rn'', Rn),
      (''cp'', Cp), (''mv'', Mv), (''rm'', Rm), (''os'', Os), (''hash'', Hash),
      (''compress'', Compress), (''decompress'', Decompress), (''.exit'', DotExit)]"

text \<open>The \<open>i\<close>-th parameter of a function called with the spread arguments.\<close>

definition arg :: "string list \<Rightarrow> nat \<Rightarrow> string option" where
  "arg args i = (if i < length args then Some (args ! i) else None)"

text \<open>\<^verbatim>\<open>targetFunction(...operationArgs)\<close> for each value of the registry.\<close>

definition invoke :: "platform \<Rightarrow> command \<Rightarrow> string list \<Rightarrow> session \<Rightarrow> outcome \<times> session" where
  "invoke pf c args s =
     (case c of
        Up \<Rightarrow> navigateUpward pf s
      | Cd \<Rightarrow> navigateToSpecificDirectory (arg args 0) s
      | Ls \<Rightarrow> enumerateDirectoryContents pf s
      | Cat \<Rightarrow> streamResourceContentToConsole pf (arg args 0) s
      | Add \<Rightarrow> generateNewEmptyFile (arg args 0) s
      | Rn \<Rightarrow> modifyResourceName (arg args 0) (arg args 1) s
      | Cp \<Rightarrow> transferResourceViaStream pf (arg args 0) (arg args 1) False s
      | Mv \<Rightarrow> transferResourceViaStream pf (arg args 0) (arg args 1) True s
      | Rm \<Rightarrow> obliterateSystemItem (arg args 0) s
      | Os \<Rightarrow> reportOperatingSystemProperty pf (arg args 0) s
      | Hash \<Rightarrow> generateResourceChecksum pf (arg args 0) s
      | Compress \<Rightarrow> transformFileWithBrotli pf (arg args 0) (arg args 1) ''encode'' s
      | Decompress \<Rightarrow> transformFileWithBrotli pf (arg args 0) (arg args 1) ''decode'' s
      | DotExit \<Rightarrow> exit_handler s)"

text \<open>The number of parameters that the function registered for a command declares.\<close>

definition arity :: "command \<Rightarrow> nat" where
  "arity c =
     (case c of
        Up \<Rightarrow> 0 | Ls \<Rightarrow> 0 | DotExit \<Rightarrow> 0
      | Rn \<Rightarrow> 2 | Cp \<Rightarrow> 2 | Mv \<Rightarrow> 2 | Compress \<Rightarrow> 2 | Decompress \<Rightarrow> 2
      | _ \<Rightarrow> 1)"

text \<open>
  The end of the \<^verbatim>\<open>line\<close> callback: the \<^verbatim>\<open>catch\<close> prints the message of what was thrown,
  and \<^verbatim>\<open>displayCurrentPath\<close> runs unless the process has ended.
\<close>

definition settle :: "platform \<Rightarrow> outcome \<times> session \<Rightarrow> session" where
  "settle pf result =
     (case fst result of
        Returned \<Rightarrow> displayCurrentPath (snd result)
      | Threw executionError \<Rightarrow>
          displayCurrentPath
            (emit (ErrorLine (''Error: Operation failed. Details - ''
                     @ error_message pf executionError)) (snd result))
      | Exited \<Rightarrow> snd result)"

definition unknown_operation_warning :: string where
  "unknown_operation_warning = ''Warning: Unknown operation entered. Please try a valid command.''"

text \<open>The callback of \<^verbatim>\<open>cliHandler.on('line', ...)\<close>.\<close>

definition on_line :: "platform \<Rightarrow> string \<Rightarrow> session \<Rightarrow> session" where
  "on_line pf userInputLine s =
     (let trimmedInput = trim userInputLine
      in if trimmedInput = [] then displayCurrentPath s
         else (case split_whitespace trimmedInput of
                 [] \<Rightarrow> displayCurrentPath (emit (Warn unknown_operation_warning) s)
               | operationName # operationArgs \<Rightarrow>
                  (case get_property commandRegistry operationName of
                     Own targetFunction \<Rightarrow> settle pf (invoke pf targetFunction operationArgs s)
                   | Inherited m \<Rightarrow> settle pf (call_as_function ''targetFunction'' m, s)
                   | Missing \<Rightarrow> displayCurrentPath (emit (Warn unknown_operation_warning) s))))"

text \<open>The lines of a session, one after the other, until the process has ended.\<close>

fun run_lines :: "platform \<Rightarrow> string list \<Rightarrow> session \<Rightarrow> session" where
  "run_lines pf [] s = s"
| "run_lines pf (l # ls) s =
     (if exit_code s = None then run_lines pf ls (on_line pf l s) else s)"

subsection \<open>A sample host and sample sessions\<close>

text \<open>
  A collation for the sample host that, like the default collation of Node.js, compares
  letters without regard to case first and puts the lower-case letter first on a tie.
\<close>

definition fold_case :: "char \<Rightarrow> char" where
  "fold_case c =
     (if (65::nat) \<le> of_char c \<and> (of_char c :: nat) \<le> 90 then char_of ((of_char c :: nat) + 32) else c)"

definition case_aware_compare :: "string \<Rightarrow> string \<Rightarrow> int" where
  "case_aware_compare a b =
     (if strcmp (map fold_case a) (map fold_case b) \<noteq> 0
      then strcmp (map fold_case a) (map fold_case b)
      else strcmp b a)"

definition sample_platform :: platform where
  "sample_platform =
     \<lparr>homedir = ''/home/u'', EOL = [CHR 0x0A], cpus = [(''cpu'', 2400)], username = ''u'',
      architecture = ''x64'', sha256_hex = (\<lambda>bytes. ''00''), brotli_encode = (\<lambda>bytes. bytes),
      brotli_decode = (\<lambda>bytes. Inr bytes), localeCompare = case_aware_compare,
      type_error_message = (\<lambda>t. ''TypeError''), sort_long = (\<lambda>cmp rows. rows)\<rparr>"

text \<open>
  The home directory \<^verbatim>\<open>/home/u\<close> holds the files \<^verbatim>\<open>b\<close> and \<^verbatim>\<open>a\<close>, the socket \<^verbatim>\<open>o\<close> and
  the directory \<^verbatim>\<open>docs\<close>; the directory \<^verbatim>\<open>/home/v\<close> holds the files \<^verbatim>\<open>B\<close> and \<^verbatim>\<open>a\<close> and the
  socket \<^verbatim>\<open>O\<close>.
\<close>

definition sample_files :: filesystem where
  "sample_files =
     \<lparr>dir_entries =
        [([], Directory), ([''home''], Directory), ([''home'', ''u''], Directory),
         ([''home'', ''v''], Directory),
         ([''home'', ''u'', ''b''], Regular 2), ([''home'', ''u'', ''o''], SocketFile),
         ([''home'', ''u'', ''a''], Regular 1), ([''home'', ''u'', ''docs''], Directory),
         ([''home'', ''v'', ''a''], Regular 3), ([''home'', ''v'', ''O''], SocketFile),
         ([''home'', ''v'', ''B''], Regular 4)],
      file_bytes = [(1, ''aaa''), (2, ''bbb''), (3, ''xxx''), (4, ''yyy'')]\<rparr>"

definition sample_session :: session where
  "sample_session =
     \<lparr>cwd = [''home'', ''u''], fs = sample_files, console = [], syscalls = [], exit_code = None\<rparr>"

text \<open>The same session in \<^verbatim>\<open>/home/v\<close>, as after \<^verbatim>\<open>cd ../v\<close>.\<close>

definition sample_session_v :: session where
  "sample_session_v =
     \<lparr>cwd = [''home'', ''v''], fs = sample_files, console = [], syscalls = [], exit_code = None\<rparr>"



section \<open>Properties\<close>

subsection \<open>Paths\<close>

text \<open>
  Resolving the string of a normalised path gives the path back, so the strings of two
  normalised paths differ when the paths do; and resolving against a normalised working
  directory gives a normalised path.
\<close>

lemma split_on_piece:
  "sep \<notin> set x \<Longrightarrow> split_on sep cur (x @ sep # rest) = (cur @ x) # split_on sep [] rest"
  by (induction x arbitrary: cur) auto

lemma split_on_last:
  "sep \<notin> set x \<Longrightarrow> split_on sep cur x = [cur @ x]"
  by (induction x arbitrary: cur) auto

lemma split_on_intercalate:
  "xs \<noteq> [] \<Longrightarrow> \<forall>x \<in> set xs. sep \<notin> set x \<Longrightarrow> split_on sep [] (intercalate [sep] xs) = xs"
proof (induction "[sep]" xs rule: intercalate.induct)
  case 1
  then show ?case by simp
next
  case (2 x)
  then show ?case by (simp add: split_on_last)
next
  case (3 x y ys)
  then show ?case by (simp add: split_on_piece)
qed

lemma norm_plain: "list_all plain p \<Longrightarrow> foldl (norm_segment False) acc p = acc @ p"
  by (induction p arbitrary: acc) (auto simp add: norm_segment_def plain_def)

lemma resolve_render:
  assumes "list_all plain p"
  shows "path_resolve wd [render p] = p"
proof (cases "p = []")
  case True
  then show ?thesis
    by (simp add: path_resolve_def resolve_step_def render_def is_absolute_def norm_segment_def)
next
  case False
  from assms have "\<forall>x \<in> set p. CHR ''/'' \<notin> set x"
    by (auto simp add: list_all_iff plain_def)
  with False have "split_on CHR ''/'' [] (intercalate ''/'' p) = p"
    by (rule split_on_intercalate)
  with assms show ?thesis
    by (simp add: path_resolve_def resolve_step_def render_def is_absolute_def norm_plain)
       (simp add: norm_segment_def)
qed

lemma render_inject:
  assumes "list_all plain p" and "list_all plain q" and "render p = render q"
  shows "p = q"
proof -
  from assms(1) have "p = path_resolve [] [render p]" by (simp add: resolve_render)
  also from assms(3) have "\<dots> = path_resolve [] [render q]" by simp
  also from assms(2) have "\<dots> = q" by (simp add: resolve_render)
  finally show ?thesis .
qed

lemma split_on_slashfree: "sep \<notin> set cur \<Longrightarrow> x \<in> set (split_on sep cur s) \<Longrightarrow> sep \<notin> set x"
proof (induction s arbitrary: cur)
  case Nil
  then show ?case by simp
next
  case (Cons c s)
  show ?case
  proof (cases "c = sep")
    case True
    with Cons.prems have "x = cur \<or> x \<in> set (split_on sep [] s)" by simp
    then show ?thesis
    proof
      assume "x = cur"
      with Cons.prems(1) show ?thesis by simp
    next
      assume "x \<in> set (split_on sep [] s)"
      with Cons.IH [of "[]"] show ?thesis by simp
    qed
  next
    case False
    with Cons.prems have "x \<in> set (split_on sep (cur @ [c]) s)" by simp
    moreover from False Cons.prems(1) have "sep \<notin> set (cur @ [c])" by simp
    ultimately show ?thesis by (rule Cons.IH [rotated])
  qed
qed

lemma norm_segment_plain:
  "list_all plain acc \<Longrightarrow> CHR ''/'' \<notin> set seg \<Longrightarrow> list_all plain (norm_segment False acc seg)"
  by (auto simp add: norm_segment_def plain_def list_all_iff dest: in_set_butlastD)

lemma foldl_norm_plain:
  "list_all plain acc \<Longrightarrow> \<forall>x \<in> set segs. CHR ''/'' \<notin> set x
     \<Longrightarrow> list_all plain (foldl (norm_segment False) acc segs)"
  by (induction segs arbitrary: acc) (simp_all add: norm_segment_plain)

lemma resolve_step_plain: "list_all plain acc \<Longrightarrow> list_all plain (resolve_step acc a)"
proof -
  have free: "\<forall>x \<in> set (split_on CHR ''/'' [] a). CHR ''/'' \<notin> set x"
    using split_on_slashfree [of "CHR ''/''" "[]"] by auto
  assume "list_all plain acc"
  with free show ?thesis
    by (simp add: resolve_step_def foldl_norm_plain)
qed

lemma path_resolve_plain: "list_all plain wd \<Longrightarrow> list_all plain (path_resolve wd args)"
  unfolding path_resolve_def
  by (induction args arbitrary: wd) (simp_all add: resolve_step_plain)

subsection \<open>Path lookup\<close>

lemma walk_error: "walk m pre cs = Inl e \<Longrightarrow> e = ENOENT \<or> e = ENOTDIR"
  by (induction cs arbitrary: pre) (auto split: option.splits entry.splits)

lemma walk_Inr_iff:
  "walk m pre cs = Inr n \<longleftrightarrow>
     (\<forall>k < length cs. m (pre @ take k cs) = Some Directory) \<and> m (pre @ cs) = Some n"
proof (induction cs arbitrary: pre)
  case Nil
  then show ?case by (simp split: option.splits)
next
  case (Cons c cs)
  show ?case
  proof (cases "m pre = Some Directory")
    case True
    have "(\<forall>k < length (c # cs). m (pre @ take k (c # cs)) = Some Directory)
            \<longleftrightarrow> (\<forall>k < length cs. m ((pre @ [c]) @ take k cs) = Some Directory)"
    proof
      assume h: "\<forall>k < length (c # cs). m (pre @ take k (c # cs)) = Some Directory"
      show "\<forall>k < length cs. m ((pre @ [c]) @ take k cs) = Some Directory"
      proof (intro allI impI)
        fix k assume "k < length cs"
        then have "Suc k < length (c # cs)" by simp
        with h have "m (pre @ take (Suc k) (c # cs)) = Some Directory" by blast
        then show "m ((pre @ [c]) @ take k cs) = Some Directory" by simp
      qed
    next
      assume h: "\<forall>k < length cs. m ((pre @ [c]) @ take k cs) = Some Directory"
      show "\<forall>k < length (c # cs). m (pre @ take k (c # cs)) = Some Directory"
      proof (intro allI impI)
        fix k assume k: "k < length (c # cs)"
        show "m (pre @ take k (c # cs)) = Some Directory"
        proof (cases k)
          case 0
          with True show ?thesis by simp
        next
          case (Suc j)
          with k have "j < length cs" by simp
          with h have "m ((pre @ [c]) @ take j cs) = Some Directory" by blast
          with Suc show ?thesis by simp
        qed
      qed
    qed
    with True Cons.IH [of "pre @ [c]"] show ?thesis by simp
  next
    case False
    then have "walk m pre (c # cs) \<noteq> Inr n"
      by (auto split: option.splits entry.splits)
    moreover from False have "\<not> (\<forall>k < length (c # cs). m (pre @ take k (c # cs)) = Some Directory)"
      by (auto intro: exI [of _ 0])
    ultimately show ?thesis by blast
  qed
qed


text \<open>Where the lookup of \<open>p\<close> fails although its parent is a directory, nothing is at \<open>p\<close>.\<close>

lemma walk_parent_Directory_absent:
  assumes "walk m [] p = Inl e" and "walk m [] (butlast p) = Inr Directory"
  shows "m p = None \<and> (\<forall>k < length p. m (take k p) = Some Directory)"
proof -
  from assms(2) have anc: "\<forall>k < length (butlast p). m (take k (butlast p)) = Some Directory"
    and par: "m (butlast p) = Some Directory"
    by (simp_all add: walk_Inr_iff)
  have pre: "\<forall>k < length p. m (take k p) = Some Directory"
  proof (intro allI impI)
    fix k assume k: "k < length p"
    show "m (take k p) = Some Directory"
    proof (cases "k < length p - 1")
      case True
      with anc have "m (take k (butlast p)) = Some Directory" by simp
      with True show ?thesis by (simp add: take_butlast)
    next
      case False
      with k have "k = length p - 1" by simp
      with par show ?thesis by (simp add: butlast_conv_take)
    qed
  qed
  have "m p = None"
  proof (rule ccontr)
    assume "m p \<noteq> None"
    then obtain n where "m p = Some n" by blast
    with pre have "walk m [] p = Inr n" by (simp add: walk_Inr_iff)
    with assms(1) show False by simp
  qed
  with pre show ?thesis by blast
qed


subsection \<open>File-system calls\<close>

lemma lookup_Inr_iff:
  "fs_lookup files p = Inr x \<longleftrightarrow>
     (\<forall>k < length p. map_of (dir_entries files) (take k p) = Some Directory)
     \<and> map_of (dir_entries files) p = Some x"
  by (simp add: fs_lookup_def walk_Inr_iff)

lemma node_of_Dir: "node_of files x = Dir \<longleftrightarrow> x = Directory"
  by (cases x) (simp_all add: node_of_def)


lemma stat_Inl: "fs_stat files p = Inl e \<longleftrightarrow> fs_lookup files p = Inl e"
  by (simp add: fs_stat_def split: sum.splits)

lemma stat_Inr: "fs_stat files p = Inr n \<longleftrightarrow> (\<exists>x. fs_lookup files p = Inr x \<and> n = node_of files x)"
  by (auto simp add: fs_stat_def split: sum.splits)

lemma stat_error: "fs_stat files p = Inl e \<Longrightarrow> e = ENOENT \<or> e = ENOTDIR"
  by (auto simp add: stat_Inl fs_lookup_def dest: walk_error)

lemma take_shorter: "k < length p \<Longrightarrow> take k p \<noteq> p"
proof
  assume "k < length p" and "take k p = p"
  then have "length (take k p) = length p" by simp
  with \<open>k < length p\<close> show False by simp
qed

lemma parent_check_None:
  "parent_check files p = None \<Longrightarrow> fs_lookup files (butlast p) = Inr Directory"
  by (auto simp add: parent_check_def stat_Inr node_of_Dir split: sum.splits node.splits)

lemma created_place:
  assumes "fs_lookup files p = Inl e" and "parent_check files p = None"
  shows "map_of (dir_entries files) p = None
         \<and> (\<forall>k < length p. map_of (dir_entries files) (take k p) = Some Directory)"
  using assms walk_parent_Directory_absent [of "map_of (dir_entries files)" p e]
  by (simp add: fs_lookup_def parent_check_None [unfolded fs_lookup_def])






lemma bytes_of_create_file:
  "bytes_of (create_file files p) j = (if j = fresh_inode files then [] else bytes_of files j)"
  by (simp add: bytes_of_def create_file_def update_conv')

lemma lookup_create_same:
  assumes "\<forall>k < length p. map_of (dir_entries files) (take k p) = Some Directory"
  shows "fs_lookup (create_file files p) p = Inr (Regular (fresh_inode files))"
  using assms by (simp add: lookup_Inr_iff create_file_def update_conv' take_shorter)





lemma create_exclusive_Inr:
  assumes "fs_create_exclusive files p = Inr fs1"
  shows "(\<exists>e. fs_stat files p = Inl e) \<and> fs_stat fs1 p = Inr (File [])"
proof (cases "fs_stat files p")
  case (Inl e)
  with assms have pc: "parent_check files p = None" and eq: "fs1 = create_file files p"
    by (auto simp add: fs_create_exclusive_def split: option.splits)
  from Inl have "fs_lookup files p = Inl e" by (simp add: stat_Inl)
  from created_place [OF this pc]
  have "\<forall>k < length p. map_of (dir_entries files) (take k p) = Some Directory" by simp
  then have "fs_lookup (create_file files p) p = Inr (Regular (fresh_inode files))"
    by (rule lookup_create_same)
  then have "fs_stat (create_file files p) p = Inr (File [])"
    by (simp add: fs_stat_def node_of_def bytes_of_create_file)
  with Inl eq show ?thesis by simp
next
  case (Inr n)
  with assms show ?thesis by (simp add: fs_create_exclusive_def)
qed

subsection \<open>The dispatch loop\<close>

lemmas line_defs = on_line_def trim_def split_whitespace_def is_whitespace_def get_property_def
  commandRegistry_def object_prototype_def call_as_function_def settle_def displayCurrentPath_def

text \<open>
  Claim C1.  A line whose first token is not a registered command name should get the
  unknown-operation warning and invoke nothing.  The registry is an object literal, so the
  names of \<^verbatim>\<open>Object.prototype\<close> are found in it as well: for the line \<^verbatim>\<open>toString\<close> the
  loop calls \<^verbatim>\<open>Object.prototype.toString\<close>, which returns, and the only output is the
  redisplayed location and prompt; no warning is printed.
\<close>

theorem toString_line_gets_no_warning:
  "on_line pf ''toString'' s = displayCurrentPath s \<and>
   console (on_line pf ''toString'' s)
     = console s @ [Log ([CHR 0x0A] @ ''[Current Location]: '' @ render (cwd s)), Prompt]"
  by (simp add: line_defs emit_def)

text \<open>
  What the loop does for any first token that is not a registered name: the file system,
  the working directory, the system calls made and the exit code stay as they are, and
  the prompt is redisplayed; the warning is printed exactly for the names that
  \<^verbatim>\<open>Object.prototype\<close> does not have either.
\<close>

lemma unregistered_line:
  assumes "trim line \<noteq> []"
    and "split_whitespace (trim line) = name # args"
    and "map_of commandRegistry name = None"
  shows "on_line pf line s =
           (case map_of object_prototype name of
              None \<Rightarrow> displayCurrentPath (emit (Warn unknown_operation_warning) s)
            | Some m \<Rightarrow> settle pf (call_as_function ''targetFunction'' m, s))"
    and "fs (on_line pf line s) = fs s"
    and "cwd (on_line pf line s) = cwd s"
    and "syscalls (on_line pf line s) = syscalls s"
    and "exit_code (on_line pf line s) = exit_code s"
    and "last (console (on_line pf line s)) = Prompt"
  using assms
  by (auto simp add: on_line_def get_property_def settle_def displayCurrentPath_def emit_def
      call_as_function_def split: option.splits object_prototype_member.splits)

lemma arg_append:
  "arg (args @ extra) i = (if i < length args then arg args i else arg extra (i - length args))"
  by (auto simp add: arg_def nth_append)

text \<open>
  Claim C9.  Arguments beyond the parameters of the registered function do not change
  what the function does: a call with at least as many arguments as the function has
  parameters gives the same outcome and the same session with any further arguments.
\<close>

theorem extra_arguments_ignored:
  "arity c \<le> length args \<Longrightarrow> invoke pf c (args @ extra) s = invoke pf c args s"
  by (cases c) (auto simp add: invoke_def arity_def arg_append)

theorem extra_arguments_ignored_witness:
  "arity Cd \<le> length [''docs'']
   \<and> invoke sample_platform Cd ([''docs''] @ [''b'']) sample_session
       = invoke sample_platform Cd [''docs''] sample_session
   \<and> on_line sample_platform ''cd docs b'' sample_session
       = on_line sample_platform ''cd docs'' sample_session
   \<and> arity Up \<le> length ([] :: string list)
   \<and> on_line sample_platform ''up x'' sample_session = on_line sample_platform ''up'' sample_session"
proof -
  have h: "arity Cd \<le> length [''docs'']"
    by (simp add: arity_def)
  have i: "invoke sample_platform Cd ([''docs''] @ [''b'']) sample_session
             = invoke sample_platform Cd [''docs''] sample_session"
    by (rule extra_arguments_ignored [OF h])
  have "on_line sample_platform ''cd docs b'' sample_session
          = settle sample_platform (invoke sample_platform Cd ([''docs''] @ [''b'']) sample_session)"
    by (simp add: line_defs)
  moreover have "on_line sample_platform ''cd docs'' sample_session
          = settle sample_platform (invoke sample_platform Cd [''docs''] sample_session)"
    by (simp add: line_defs)
  ultimately have c: "on_line sample_platform ''cd docs b'' sample_session
       = on_line sample_platform ''cd docs'' sample_session"
    using i by simp
  have h': "arity Up \<le> length ([] :: string list)"
    by (simp add: arity_def)
  have i': "invoke sample_platform Up ([] @ [''x'']) sample_session
             = invoke sample_platform Up [] sample_session"
    by (rule extra_arguments_ignored [OF h'])
  have "on_line sample_platform ''up x'' sample_session
          = settle sample_platform (invoke sample_platform Up ([] @ [''x'']) sample_session)"
    by (simp add: line_defs)
  moreover have "on_line sample_platform ''up'' sample_session
          = settle sample_platform (invoke sample_platform Up [] sample_session)"
    by (simp add: line_defs)
  ultimately have u: "on_line sample_platform ''up x'' sample_session
       = on_line sample_platform ''up'' sample_session"
    using i' by simp
  from h i c h' u show ?thesis by blast
qed

subsection \<open>Host properties\<close>

text \<open>
  Claim C2.  Every key other than the five registered ones should fail with the
  invalid-key error.  The accessor table is an object literal too: for the key
  \<^verbatim>\<open>toString\<close> the handler finds \<^verbatim>\<open>Object.prototype.toString\<close>, calls it and returns without
  an error and without output.
\<close>

theorem os_toString_key_is_accepted:
  "reportOperatingSystemProperty pf (Some ''toString'') s = (Returned, s)"
  by (simp add: reportOperatingSystemProperty_def falsy_def text_of_def get_property_def
      propertyAccessors_def object_prototype_def call_as_method_def)

text \<open>
  What the handler does for any key that is not one of the five: the invalid-key error
  for the keys that \<^verbatim>\<open>Object.prototype\<close> does not have either, and the missing-key error
  without a key.
\<close>

lemma unrecognised_key:
  assumes "key \<noteq> []"
    and "map_of propertyAccessors key = None"
  shows "reportOperatingSystemProperty pf (Some key) s =
           (case map_of object_prototype key of
              None \<Rightarrow> (Threw (Error (''Invalid OS property key: '' @ key)), s)
            | Some m \<Rightarrow> (call_as_method ''propertyAccessors[propertyKey]'' m, s))"
  using assms
  by (simp add: reportOperatingSystemProperty_def falsy_def text_of_def get_property_def
      split: option.splits)

lemma no_key:
  "reportOperatingSystemProperty pf None s = (Threw (Error ''OS property key not specified.''), s)"
  by (simp add: reportOperatingSystemProperty_def falsy_def)

subsection \<open>Copy and move\<close>








text \<open>
  Claim C10.  When \<^verbatim>\<open>cp\<close> or \<^verbatim>\<open>mv\<close> throws the missing-argument, the identical-paths or
  the directory-source error, the file system, the working directory and the console are
  what they were, and the only system call made, if any, is the metadata query of the
  source: no stream has been created.
\<close>

theorem transfer_checks_precede_streams:
  assumes "transferResourceViaStream pf source destinationContainer isMoveOperation s = (Threw (Error m), s')"
    and "m = ''Source or destination not specified.''
         \<or> m = ''Source and destination paths are identical.''
         \<or> m = ''Cannot move a directory with this command.''
         \<or> m = ''Cannot copy a directory with this command.''"
  shows "fs s' = fs s \<and> cwd s' = cwd s \<and> console s' = console s
     \<and> (syscalls s' = syscalls s
         \<or> syscalls s' = syscalls s @ [Stat (path_resolve (cwd s) [text_of source])])"
  using assms
  by (auto simp add: transferResourceViaStream_def Let_def trace_def split: if_splits sum.splits)


theorem transfer_checks_precede_streams_witness:
  "fst (transferResourceViaStream sample_platform (Some ''a'') None True sample_session)
     = Threw (Error ''Source or destination not specified.'')
   \<and> fs (snd (transferResourceViaStream sample_platform (Some ''a'') None True sample_session))
       = fs sample_session
   \<and> fst (transferResourceViaStream sample_platform (Some ''a'') (Some ''.'') False sample_session)
       = Threw (Error ''Source and destination paths are identical.'')
   \<and> fs (snd (transferResourceViaStream sample_platform (Some ''a'') (Some ''.'') False sample_session))
       = fs sample_session
   \<and> fst (transferResourceViaStream sample_platform (Some ''docs'') (Some ''/home/v'') False
         sample_session)
       = Threw (Error ''Cannot copy a directory with this command.'')
   \<and> fs (snd (transferResourceViaStream sample_platform (Some ''docs'') (Some ''/home/v'') False
         sample_session))
       = fs sample_session
   \<and> syscalls (snd (transferResourceViaStream sample_platform (Some ''docs'') (Some ''/home/v'') False
         sample_session))
       = [Stat [''home'', ''u'', ''docs'']]"
proof -
  have 1: "fst (transferResourceViaStream sample_platform (Some ''a'') None True sample_session)
     = Threw (Error ''Source or destination not specified.'')"
    by code_simp
  have 2: "fst (transferResourceViaStream sample_platform (Some ''a'') (Some ''.'') False
     sample_session) = Threw (Error ''Source and destination paths are identical.'')"
    by code_simp
  have 3: "fst (transferResourceViaStream sample_platform (Some ''docs'') (Some ''/home/v'') False
     sample_session) = Threw (Error ''Cannot copy a directory with this command.'')"
    by code_simp
  have 4: "syscalls (snd (transferResourceViaStream sample_platform (Some ''docs'') (Some ''/home/v'')
     False sample_session)) = [Stat [''home'', ''u'', ''docs'']]"
    by code_simp
  have "fs (snd (transferResourceViaStream sample_platform (Some ''a'') None True sample_session))
       = fs sample_session"
    using transfer_checks_precede_streams
      [of sample_platform "Some ''a''" None True sample_session
          "''Source or destination not specified.''"
          "snd (transferResourceViaStream sample_platform (Some ''a'') None True sample_session)"] 1
    by (simp add: prod_eq_iff)
  moreover
  have "fs (snd (transferResourceViaStream sample_platform (Some ''a'') (Some ''.'') False
       sample_session)) = fs sample_session"
    using transfer_checks_precede_streams
      [of sample_platform "Some ''a''" "Some ''.''" False sample_session
          "''Source and destination paths are identical.''"
          "snd (transferResourceViaStream sample_platform (Some ''a'') (Some ''.'') False
             sample_session)"] 2
    by (simp add: prod_eq_iff)
  moreover
  have "fs (snd (transferResourceViaStream sample_platform (Some ''docs'') (Some ''/home/v'') False
       sample_session)) = fs sample_session"
    using transfer_checks_precede_streams
      [of sample_platform "Some ''docs''" "Some ''/home/v''" False sample_session
          "''Cannot copy a directory with this command.''"
          "snd (transferResourceViaStream sample_platform (Some ''docs'') (Some ''/home/v'') False
             sample_session)"] 3
    by (simp add: prod_eq_iff)
  ultimately show ?thesis
    using 1 2 3 4 by blast
qed

text \<open>
  Claim C5 says that \<^verbatim>\<open>cp\<close> and \<^verbatim>\<open>mv\<close> of a directory always fail with the
  directory error.  The two checks before the metadata query come first: \<^verbatim>\<open>cp docs .\<close> in
  the directory that holds the directory \<^verbatim>\<open>docs\<close> fails with the identical-paths error.
\<close>

theorem directory_source_counterexample:
  "fs_stat (fs sample_session) (path_resolve (cwd sample_session) [''docs'']) = Inr Dir
   \<and> fst (transferResourceViaStream sample_platform (Some ''docs'') (Some ''.'') False sample_session)
       = Threw (Error ''Source and destination paths are identical.'')
   \<and> fst (transferResourceViaStream sample_platform (Some ''docs'') (Some ''.'') False sample_session)
       \<noteq> Threw (Error ''Cannot copy a directory with this command.'')"
  by code_simp

text \<open>
  Claim C5, amended.  For a source argument that resolves to a directory, \<^verbatim>\<open>cp\<close> and
  \<^verbatim>\<open>mv\<close> fail, whatever the move flag: with the missing-argument error when no destination
  is given, with the identical-paths error when the resolved destination is the source,
  and with the directory error, after the metadata query alone, in every other case.
\<close>

theorem directory_source_is_rejected:
  assumes "\<not> falsy source"
    and "src = path_resolve (cwd s) [text_of source]"
    and "fs_stat (fs s) src = Inr Dir"
  shows "(falsy destinationContainer \<longrightarrow>
            transferResourceViaStream pf source destinationContainer isMoveOperation s
              = (Threw (Error ''Source or destination not specified.''), s))
       \<and> (\<not> falsy destinationContainer
            \<and> src = path_resolve (cwd s) [text_of destinationContainer, path_basename src] \<longrightarrow>
            transferResourceViaStream pf source destinationContainer isMoveOperation s
              = (Threw (Error ''Source and destination paths are identical.''), s))
       \<and> (\<not> falsy destinationContainer
            \<and> src \<noteq> path_resolve (cwd s) [text_of destinationContainer, path_basename src] \<longrightarrow>
            transferResourceViaStream pf source destinationContainer isMoveOperation s
              = (Threw (Error (''Cannot '' @ (if isMoveOperation then ''move'' else ''copy'')
                   @ '' a directory with this command.'')), trace (Stat src) s))"
  using assms
  by (simp add: transferResourceViaStream_def Let_def)

theorem directory_source_is_rejected_witness:
  "\<not> falsy (Some ''docs'')
   \<and> fs_stat (fs sample_session) [''home'', ''u'', ''docs''] = Inr Dir
   \<and> transferResourceViaStream sample_platform (Some ''docs'') None False sample_session
       = (Threw (Error ''Source or destination not specified.''), sample_session)
   \<and> transferResourceViaStream sample_platform (Some ''docs'') (Some ''.'') True sample_session
       = (Threw (Error ''Source and destination paths are identical.''), sample_session)
   \<and> transferResourceViaStream sample_platform (Some ''docs'') (Some ''/home/v'') True sample_session
       = (Threw (Error ''Cannot move a directory with this command.''),
          trace (Stat [''home'', ''u'', ''docs'']) sample_session)"
proof -
  have g: "\<not> falsy (Some ''docs'')"
    by (simp add: falsy_def)
  have src: "[''home'', ''u'', ''docs''] = path_resolve (cwd sample_session) [text_of (Some ''docs'')]"
    by code_simp
  have d: "fs_stat (fs sample_session) [''home'', ''u'', ''docs''] = Inr Dir"
    by code_simp
  have dst1: "[''home'', ''u'', ''docs'']
      = path_resolve (cwd sample_session) [text_of (Some ''.''), path_basename [''home'', ''u'', ''docs'']]"
    by code_simp
  have dst2: "[''home'', ''u'', ''docs'']
      \<noteq> path_resolve (cwd sample_session)
          [text_of (Some ''/home/v''), path_basename [''home'', ''u'', ''docs'']]"
    by code_simp
  have f: "falsy None" "\<not> falsy (Some ''.'')" "\<not> falsy (Some ''/home/v'')"
    by (simp_all add: falsy_def)
  from directory_source_is_rejected [OF g src d, of None sample_platform False] f
  have 1: "transferResourceViaStream sample_platform (Some ''docs'') None False sample_session
       = (Threw (Error ''Source or destination not specified.''), sample_session)"
    by blast
  from directory_source_is_rejected [OF g src d, of "Some ''.''" sample_platform True] f dst1
  have 2: "transferResourceViaStream sample_platform (Some ''docs'') (Some ''.'') True sample_session
       = (Threw (Error ''Source and destination paths are identical.''), sample_session)"
    by blast
  from directory_source_is_rejected [OF g src d, of "Some ''/home/v''" sample_platform True] f dst2
  have 3: "transferResourceViaStream sample_platform (Some ''docs'') (Some ''/home/v'') True
      sample_session
       = (Threw (Error ''Cannot move a directory with this command.''),
          trace (Stat [''home'', ''u'', ''docs'']) sample_session)"
    by simp
  from g d 1 2 3 show ?thesis by blast
qed

subsection \<open>Creation\<close>

text \<open>
  Claim C7.  With a name given: when something is at the resolved path (a file with its
  content, in particular), \<^verbatim>\<open>add\<close> throws the \<open>EEXIST\<close> error of the exclusive open and
  the file system is what it was; when \<^verbatim>\<open>add\<close> returns, nothing was at the path before
  and an empty file is there afterwards.
\<close>

theorem add_is_exclusive:
  assumes "\<not> falsy fileName" and "p = path_resolve (cwd s) [text_of fileName]"
  shows "(fs_stat (fs s) p = Inr n \<longrightarrow>
            generateNewEmptyFile fileName s
              = (Threw (SystemError EEXIST ''open'' [p]), trace (OpenExclusive p) s)
            \<and> fs (snd (generateNewEmptyFile fileName s)) = fs s)
       \<and> (fst (generateNewEmptyFile fileName s) = Returned \<longrightarrow>
            (\<exists>e. fs_stat (fs s) p = Inl e)
            \<and> fs_stat (fs (snd (generateNewEmptyFile fileName s))) p = Inr (File []))"
proof (intro conjI impI)
  assume "fs_stat (fs s) p = Inr n"
  with assms show "generateNewEmptyFile fileName s
              = (Threw (SystemError EEXIST ''open'' [p]), trace (OpenExclusive p) s)"
    by (simp add: generateNewEmptyFile_def fs_create_exclusive_def Let_def)
  then show "fs (snd (generateNewEmptyFile fileName s)) = fs s"
    by (simp add: trace_def)
next
  assume ok: "fst (generateNewEmptyFile fileName s) = Returned"
  with assms obtain fs1 where c: "fs_create_exclusive (fs s) p = Inr fs1"
    and r: "fs (snd (generateNewEmptyFile fileName s)) = fs1"
    by (auto simp add: generateNewEmptyFile_def Let_def emit_def trace_def split: sum.splits)
  from create_exclusive_Inr [OF c] r
  show "\<exists>e. fs_stat (fs s) p = Inl e"
    and "fs_stat (fs (snd (generateNewEmptyFile fileName s))) p = Inr (File [])"
    by simp_all
qed



theorem add_is_exclusive_witness:
  "\<not> falsy (Some ''a'')
   \<and> fs_stat (fs sample_session) [''home'', ''u'', ''a''] = Inr (File ''aaa'')
   \<and> generateNewEmptyFile (Some ''a'') sample_session
       = (Threw (SystemError EEXIST ''open'' [[''home'', ''u'', ''a'']]),
          trace (OpenExclusive [''home'', ''u'', ''a'']) sample_session)
   \<and> fs (snd (generateNewEmptyFile (Some ''a'') sample_session)) = fs sample_session
   \<and> fst (generateNewEmptyFile (Some ''n'') sample_session) = Returned
   \<and> fs_stat (fs sample_session) [''home'', ''u'', ''n''] = Inl ENOENT
   \<and> fs_stat (fs (snd (generateNewEmptyFile (Some ''n'') sample_session))) [''home'', ''u'', ''n'']
       = Inr (File [])"
proof -
  have given: "\<not> falsy (Some ''a'')" "\<not> falsy (Some ''n'')"
    by (simp_all add: falsy_def)
  have pa: "[''home'', ''u'', ''a''] = path_resolve (cwd sample_session) [text_of (Some ''a'')]"
    by code_simp
  have pn: "[''home'', ''u'', ''n''] = path_resolve (cwd sample_session) [text_of (Some ''n'')]"
    by code_simp
  have there: "fs_stat (fs sample_session) [''home'', ''u'', ''a''] = Inr (File ''aaa'')"
    by code_simp
  have absent: "fs_stat (fs sample_session) [''home'', ''u'', ''n''] = Inl ENOENT"
    by code_simp
  have ok: "fst (generateNewEmptyFile (Some ''n'') sample_session) = Returned"
    by code_simp
  from add_is_exclusive [OF given(1) pa, of "File ''aaa''"] there
  have "generateNewEmptyFile (Some ''a'') sample_session
       = (Threw (SystemError EEXIST ''open'' [[''home'', ''u'', ''a'']]),
          trace (OpenExclusive [''home'', ''u'', ''a'']) sample_session)"
    and "fs (snd (generateNewEmptyFile (Some ''a'') sample_session)) = fs sample_session"
    by blast+
  moreover from add_is_exclusive [OF given(2) pn, of Dir] ok
  have "fs_stat (fs (snd (generateNewEmptyFile (Some ''n'') sample_session))) [''home'', ''u'', ''n'']
       = Inr (File [])"
    by blast
  ultimately show ?thesis
    using given there ok absent by blast
qed

subsection \<open>Navigation\<close>

text \<open>
  Claim C4.  Without an argument \<^verbatim>\<open>cd\<close> throws its missing-argument error and the session
  is what it was.  When the metadata query of the resolved path fails, \<^verbatim>\<open>cd\<close> throws that
  error (\<open>ENOENT\<close>, or \<open>ENOTDIR\<close> for a path below something that is not a directory), the
  query is the only system call made, and the working directory is unchanged; and so it
  is after every \<^verbatim>\<open>cd\<close> that does not return.
\<close>

theorem cd_failures_keep_directory:
  "(falsy destination \<longrightarrow>
      navigateToSpecificDirectory destination s = (Threw (Error ''Directory path not specified.''), s))
   \<and> (\<not> falsy destination \<and> fs_stat (fs s) (path_resolve (cwd s) [text_of destination]) = Inl e \<longrightarrow>
      navigateToSpecificDirectory destination s
        = (Threw (SystemError e ''stat'' [path_resolve (cwd s) [text_of destination]]),
           trace (Stat (path_resolve (cwd s) [text_of destination])) s)
      \<and> (e = ENOENT \<or> e = ENOTDIR)
      \<and> cwd (snd (navigateToSpecificDirectory destination s)) = cwd s)
   \<and> (fst (navigateToSpecificDirectory destination s) \<noteq> Returned \<longrightarrow>
      cwd (snd (navigateToSpecificDirectory destination s)) = cwd s)"
proof (intro conjI impI)
  assume "falsy destination"
  then show "navigateToSpecificDirectory destination s
      = (Threw (Error ''Directory path not specified.''), s)"
    by (simp add: navigateToSpecificDirectory_def)
next
  assume h: "\<not> falsy destination \<and> fs_stat (fs s) (path_resolve (cwd s) [text_of destination]) = Inl e"
  then show r: "navigateToSpecificDirectory destination s
        = (Threw (SystemError e ''stat'' [path_resolve (cwd s) [text_of destination]]),
           trace (Stat (path_resolve (cwd s) [text_of destination])) s)"
    by (simp add: navigateToSpecificDirectory_def Let_def)
  from h show "e = ENOENT \<or> e = ENOTDIR"
    by (auto dest: stat_error)
  from r show "cwd (snd (navigateToSpecificDirectory destination s)) = cwd s"
    by (simp add: trace_def)
next
  assume "fst (navigateToSpecificDirectory destination s) \<noteq> Returned"
  then show "cwd (snd (navigateToSpecificDirectory destination s)) = cwd s"
    by (auto simp add: navigateToSpecificDirectory_def changeCurrentDirectory_def Let_def trace_def
        split: if_splits sum.splits node.splits)
qed

theorem cd_failures_keep_directory_witness:
  "falsy None
   \<and> navigateToSpecificDirectory None sample_session
       = (Threw (Error ''Directory path not specified.''), sample_session)
   \<and> \<not> falsy (Some ''nowhere'')
   \<and> fs_stat (fs sample_session) (path_resolve (cwd sample_session) [text_of (Some ''nowhere'')])
       = Inl ENOENT
   \<and> fst (navigateToSpecificDirectory (Some ''nowhere'') sample_session)
       = Threw (SystemError ENOENT ''stat'' [[''home'', ''u'', ''nowhere'']])
   \<and> cwd (snd (navigateToSpecificDirectory (Some ''nowhere'') sample_session)) = cwd sample_session
   \<and> fst (navigateToSpecificDirectory (Some ''a'') sample_session) \<noteq> Returned
   \<and> cwd (snd (navigateToSpecificDirectory (Some ''a'') sample_session)) = cwd sample_session"
proof -
  have n: "falsy None" by (simp add: falsy_def)
  have g: "\<not> falsy (Some ''nowhere'')" by (simp add: falsy_def)
  have p: "path_resolve (cwd sample_session) [text_of (Some ''nowhere'')] = [''home'', ''u'', ''nowhere'']"
    by code_simp
  have a: "fs_stat (fs sample_session) (path_resolve (cwd sample_session) [text_of (Some ''nowhere'')])
       = Inl ENOENT"
    by code_simp
  have f: "fst (navigateToSpecificDirectory (Some ''a'') sample_session) \<noteq> Returned"
    by code_simp
  from cd_failures_keep_directory [of None sample_session ENOENT] n
  have 1: "navigateToSpecificDirectory None sample_session
       = (Threw (Error ''Directory path not specified.''), sample_session)"
    by blast
  from cd_failures_keep_directory [of "Some ''nowhere''" sample_session ENOENT] g a
  have 2: "navigateToSpecificDirectory (Some ''nowhere'') sample_session
        = (Threw (SystemError ENOENT ''stat''
             [path_resolve (cwd sample_session) [text_of (Some ''nowhere'')]]),
           trace (Stat (path_resolve (cwd sample_session) [text_of (Some ''nowhere'')])) sample_session)"
    and 3: "cwd (snd (navigateToSpecificDirectory (Some ''nowhere'') sample_session)) = cwd sample_session"
    by blast+
  from 2 have 4: "fst (navigateToSpecificDirectory (Some ''nowhere'') sample_session)
       = Threw (SystemError ENOENT ''stat'' [[''home'', ''u'', ''nowhere'']])"
    by (simp add: p)
  from cd_failures_keep_directory [of "Some ''a''" sample_session ENOENT] f
  have 5: "cwd (snd (navigateToSpecificDirectory (Some ''a'') sample_session)) = cwd sample_session"
    by blast
  from n g a f 1 3 4 5 show ?thesis by blast
qed

text \<open>
  Claim C8 ends with: the session never ascends above the home directory via \<^verbatim>\<open>up\<close>.  The
  check is an equality with the home directory, and \<^verbatim>\<open>cd\<close> leads anywhere: a session
  that starts in the home directory \<^verbatim>\<open>/home/u\<close> and enters \<^verbatim>\<open>cd ../v\<close> and \<^verbatim>\<open>up\<close> is in
  \<^verbatim>\<open>/home\<close>, above the home directory.
\<close>

theorem up_above_home_counterexample:
  "cwd sample_session = path_resolve (cwd sample_session) [homedir sample_platform]
   \<and> path_resolve (cwd sample_session) [homedir sample_platform] = [''home'', ''u'']
   \<and> cwd (run_lines sample_platform [''cd ../v''] sample_session) = [''home'', ''v'']
   \<and> cwd (run_lines sample_platform [''cd ../v'', ''up''] sample_session) = [''home'']
   \<and> strict_prefix (cwd (run_lines sample_platform [''cd ../v'', ''up''] sample_session))
        (path_resolve (cwd sample_session) [homedir sample_platform])"
proof -
  have 1: "cwd sample_session = path_resolve (cwd sample_session) [homedir sample_platform]"
    by code_simp
  have 2: "path_resolve (cwd sample_session) [homedir sample_platform] = [''home'', ''u'']"
    by code_simp
  have 3: "cwd (run_lines sample_platform [''cd ../v''] sample_session) = [''home'', ''v'']"
    by code_simp
  have 4: "cwd (run_lines sample_platform [''cd ../v'', ''up''] sample_session) = [''home'']"
    by code_simp
  have "strict_prefix [''home''] [''home'', ''u'']"
    by simp
  with 1 2 3 4 show ?thesis
    by simp
qed

text \<open>
  Claim C8, amended.  With a normalised working directory: in the home directory \<^verbatim>\<open>up\<close>
  prints its message and changes nothing else; anywhere else it moves the working
  directory to its parent.  Thus from a directory at or below the home directory \<^verbatim>\<open>up\<close>
  never leads out of the home directory's subtree.
\<close>

theorem up_stops_at_home:
  assumes "list_all plain (cwd s)"
    and "usersRoot = path_resolve (cwd s) [homedir pf]"
  shows "(cwd s = usersRoot \<longrightarrow>
            navigateUpward pf s
              = (Returned, emit (Log ''Already at the root user directory. Cannot go further up.'') s))
       \<and> (cwd s \<noteq> usersRoot \<longrightarrow>
            navigateUpward pf s
              = (Returned, (trace (Chdir (butlast (cwd s))) s)\<lparr>cwd := butlast (cwd s)\<rparr>))
       \<and> (prefix usersRoot (cwd s) \<longrightarrow> prefix usersRoot (cwd (snd (navigateUpward pf s))))"
proof (intro conjI impI)
  from assms(1) have loc: "path_resolve (cwd s) [render (cwd s)] = cwd s"
    by (rule resolve_render)
  {
    assume "cwd s = usersRoot"
    with assms(2) loc show "navigateUpward pf s
        = (Returned, emit (Log ''Already at the root user directory. Cannot go further up.'') s)"
      by (simp add: navigateUpward_def Let_def)
  next
    assume "cwd s \<noteq> usersRoot"
    with assms(2) loc show "navigateUpward pf s
        = (Returned, (trace (Chdir (butlast (cwd s))) s)\<lparr>cwd := butlast (cwd s)\<rparr>)"
      by (simp add: navigateUpward_def Let_def)
  next
    assume p: "prefix usersRoot (cwd s)"
    show "prefix usersRoot (cwd (snd (navigateUpward pf s)))"
    proof (cases "cwd s = usersRoot")
      case True
      with assms(2) loc p show ?thesis
        by (simp add: navigateUpward_def Let_def emit_def)
    next
      case False
      with p obtain ys where ys: "cwd s = usersRoot @ ys" "ys \<noteq> []"
        by (auto simp add: prefix_def)
      then have "butlast (cwd s) = usersRoot @ butlast ys"
        by (simp add: butlast_append)
      with False assms(2) loc show ?thesis
        by (simp add: navigateUpward_def Let_def trace_def)
    qed
  }
qed

theorem up_stops_at_home_witness:
  "list_all plain (cwd sample_session)
   \<and> [''home'', ''u''] = path_resolve (cwd sample_session) [homedir sample_platform]
   \<and> cwd sample_session = [''home'', ''u'']
   \<and> navigateUpward sample_platform sample_session
       = (Returned,
          emit (Log ''Already at the root user directory. Cannot go further up.'') sample_session)
   \<and> cwd (snd (navigateToSpecificDirectory (Some ''docs'') sample_session)) = [''home'', ''u'', ''docs'']
   \<and> prefix [''home'', ''u''] (cwd (snd (navigateToSpecificDirectory (Some ''docs'') sample_session)))
   \<and> cwd (snd (navigateUpward sample_platform
               (snd (navigateToSpecificDirectory (Some ''docs'') sample_session))))
       = [''home'', ''u'']
   \<and> prefix [''home'', ''u'']
        (cwd (snd (navigateUpward sample_platform
                     (snd (navigateToSpecificDirectory (Some ''docs'') sample_session)))))"
proof -
  have h: "[''home'', ''u''] = path_resolve (cwd sample_session) [homedir sample_platform]"
    by code_simp
  have c: "cwd sample_session = [''home'', ''u'']"
    by code_simp
  have n: "list_all plain (cwd sample_session)"
    by code_simp
  have d: "cwd (snd (navigateToSpecificDirectory (Some ''docs'') sample_session))
      = [''home'', ''u'', ''docs'']"
    by code_simp
  have n': "list_all plain (cwd (snd (navigateToSpecificDirectory (Some ''docs'') sample_session)))"
    by code_simp
  have h': "[''home'', ''u'']
      = path_resolve (cwd (snd (navigateToSpecificDirectory (Some ''docs'') sample_session)))
          [homedir sample_platform]"
    by code_simp
  have p: "prefix [''home'', ''u''] (cwd (snd (navigateToSpecificDirectory (Some ''docs'') sample_session)))"
    by (simp add: d)
  from up_stops_at_home [OF n h] c
  have 1: "navigateUpward sample_platform sample_session
       = (Returned,
          emit (Log ''Already at the root user directory. Cannot go further up.'') sample_session)"
    by simp
  have "cwd (snd (navigateToSpecificDirectory (Some ''docs'') sample_session)) \<noteq> [''home'', ''u'']"
    by (simp add: d)
  with up_stops_at_home [OF n' h'] d
  have 2: "cwd (snd (navigateUpward sample_platform
               (snd (navigateToSpecificDirectory (Some ''docs'') sample_session))))
       = [''home'', ''u'']"
    by (simp add: trace_def)
  from up_stops_at_home [OF n' h'] p
  have 3: "prefix [''home'', ''u'']
        (cwd (snd (navigateUpward sample_platform
                     (snd (navigateToSpecificDirectory (Some ''docs'') sample_session)))))"
    by blast
  from n h c d p 1 2 3 show ?thesis by blast
qed

subsection \<open>Listing\<close>

text \<open>
  Claim C6.  Entries of equal type should be listed in ascending order of their names,
  after the folders.  The comparison function answers 1 for a file against an entry that
  is neither file nor folder, and 1 for that entry against the file, which is no order.
  The directory \<^verbatim>\<open>/home/v\<close> is read as \<^verbatim>\<open>B\<close> (file), \<^verbatim>\<open>O\<close> (socket), \<^verbatim>\<open>a\<close> (file), the
  order of \<^verbatim>\<open>strcmp\<close>; the sort finds the three in order already, on every host, so the
  table shows the file \<^verbatim>\<open>B\<close> before the file \<^verbatim>\<open>a\<close>, although a case-aware comparison such
  as that of the sample host puts \<^verbatim>\<open>a\<close> before \<^verbatim>\<open>B\<close>.
\<close>

theorem listing_keeps_files_unsorted:
  "enumerateDirectoryContents pf sample_session_v
     = (Returned,
        emit (Table (map row_cells [(''B'', FileType), (''O'', Other), (''a'', FileType)]))
          (trace (Readdir [''home'', ''v'']) sample_session_v))
   \<and> localeCompare sample_platform ''B'' ''a'' = 1"
  by code_simp

text \<open>
  The sample home directory, read as \<^verbatim>\<open>a\<close>, \<^verbatim>\<open>b\<close>, \<^verbatim>\<open>docs\<close>, \<^verbatim>\<open>o\<close>, is listed with the
  folder first and the two files in order.
\<close>

lemma listing_of_sample_home:
  "enumerateDirectoryContents sample_platform sample_session
     = (Returned,
        emit (Table (map row_cells
                [(''docs'', Folder), (''a'', FileType), (''b'', FileType), (''o'', Other)]))
          (trace (Readdir [''home'', ''u'']) sample_session))"
  by code_simp

end
